theory Spec2Isabelle
  imports Complex_Main "HOL-Library.AList"
begin

section \<open>Polynomial evaluator (app.py and ZOF\_CLI.py)\<close>

text \<open>
  Python floats are modelled as the real numbers they approximate: rounding, overflow to
  infinity and NaN are outside the model. Everything else (the order of the tests, the
  branches that break out of the loop, the exceptions) is as in the source.

  \<^verbatim>\<open>eval_poly\<close> is the same loop in both files: Horner's rule from \<^verbatim>\<open>result = 0.0\<close>.
\<close>

definition eval_poly :: "real list \<Rightarrow> real \<Rightarrow> real" where
  "eval_poly coeffs x = foldl (\<lambda>result c. result * x + c) 0 coeffs"

text \<open>
  \<^verbatim>\<open>get_poly_derivative\<close> (app.py): \<^verbatim>\<open>n = len(coeffs) - 1\<close>, \<^verbatim>\<open>[0.0]\<close> when \<^verbatim>\<open>n < 1\<close>,
  otherwise \<^verbatim>\<open>coeffs[i] * (n - i)\<close> for \<^verbatim>\<open>i\<close> in \<^verbatim>\<open>range(n)\<close>.
\<close>

definition get_poly_derivative :: "real list \<Rightarrow> real list" where
  "get_poly_derivative coeffs =
     (let n = int (length coeffs) - 1 in
      if n < 1 then [0]
      else map (\<lambda>i. coeffs ! i * real_of_int (n - int i)) [0..<nat n])"

text \<open>
  The derivative lambda of the terminal program's Newton entry:
  \<^verbatim>\<open>lambda c: [c[i]*(len(c)-1-i) for i in range(len(c)-1)]\<close>. There is no special case
  for a constant; \<^verbatim>\<open>range\<close> of a number below 1 is empty.
\<close>

definition cli_derivative :: "real list \<Rightarrow> real list" where
  "cli_derivative c =
     map (\<lambda>i. c ! i * real_of_int (int (length c) - 1 - int i)) [0..<nat (int (length c) - 1)]"

section \<open>The web engine: solve\_method (app.py)\<close>

text \<open>
  A row of the trace is a Python dict from field name to number, kept here as an
  association list in insertion order. The \<^verbatim>\<open>iter\<close> field holds an int, the others floats.
\<close>

datatype val = IntV int | FloatV real

type_synonym row = "(string \<times> val) list"

definition row_update :: "row \<Rightarrow> row \<Rightarrow> row" where
  "row_update r kvs = foldl (\<lambda>d kv. AList.update (fst kv) (snd kv) d) r kvs"

text \<open>The local variables of \<^verbatim>\<open>solve_method\<close> that the loop reads and writes.\<close>

record vars =
  x0 :: real
  x1 :: real
  curr_x :: real
  prev_x :: real
  iterations :: "row list"
  root_v :: "real option"
  converged :: bool
  error_msg :: "string option"

text \<open>
  How one pass through the loop body ends: \<open>Break\<close> for the \<^verbatim>\<open>break\<close> statement, \<open>Fall\<close>
  when control falls out of the \<^verbatim>\<open>if/elif\<close> chain to \<^verbatim>\<open>iterations.append(row)\<close>.
\<close>

datatype ctl = Break | Fall

definition not_bracketed :: string where
  "not_bracketed = ''Root not bracketed. f(a) and f(b) must have opposite signs.''"

definition stop_converged :: "real \<Rightarrow> row \<Rightarrow> vars \<Rightarrow> ctl \<times> vars \<times> row" where
  "stop_converged r rw s =
     (Break, s\<lparr>iterations := iterations s @ [rw], root_v := Some r, converged := True\<rparr>, rw)"

definition bisection_branch :: "real list \<Rightarrow> real \<Rightarrow> row \<Rightarrow> vars \<Rightarrow> ctl \<times> vars \<times> row" where
  "bisection_branch coeffs tol rw s =
     (let fa = eval_poly coeffs (x0 s); fb = eval_poly coeffs (x1 s) in
      if fa * fb \<ge> 0 then (Break, s\<lparr>error_msg := Some not_bracketed\<rparr>, rw)
      else
        let x_mid = (x0 s + x1 s) / 2;
            fx_mid = eval_poly coeffs x_mid;
            err = \<bar>x1 s - x0 s\<bar>;
            rw' = row_update rw [(''a'', FloatV (x0 s)), (''b'', FloatV (x1 s)),
                    (''x_val'', FloatV x_mid), (''f_x'', FloatV fx_mid), (''error'', FloatV err)]
        in if \<bar>fx_mid\<bar> < tol \<or> err < tol then stop_converged x_mid rw' s
           else if fa * fx_mid < 0 then (Fall, s\<lparr>x1 := x_mid\<rparr>, rw')
           else (Fall, s\<lparr>x0 := x_mid\<rparr>, rw'))"

text \<open>
  In the Regula Falsi branch the division by \<^verbatim>\<open>fb - fa\<close> is the one place where a
  \<^verbatim>\<open>ZeroDivisionError\<close> could be raised inside the \<^verbatim>\<open>try\<close>; the handler stores the
  message and breaks. The convergence test reads \<^verbatim>\<open>abs(fx_new) < tol\<close> only.
\<close>

definition regula_falsi_branch ::
    "real list \<Rightarrow> real \<Rightarrow> int \<Rightarrow> row \<Rightarrow> vars \<Rightarrow> ctl \<times> vars \<times> row" where
  "regula_falsi_branch coeffs tol i rw s =
     (let fa = eval_poly coeffs (x0 s); fb = eval_poly coeffs (x1 s) in
      if fa * fb \<ge> 0 then (Break, s\<lparr>error_msg := Some not_bracketed\<rparr>, rw)
      else if fb - fa = 0 then
        (Break, s\<lparr>error_msg := Some ''Calculation Error: float division by zero''\<rparr>, rw)
      else
        let x_new = (x0 s * fb - x1 s * fa) / (fb - fa);
            fx_new = eval_poly coeffs x_new;
            err = (if i > 1 then \<bar>x_new - prev_x s\<bar> else \<bar>x1 s - x0 s\<bar>);
            rw' = row_update rw [(''a'', FloatV (x0 s)), (''b'', FloatV (x1 s)),
                    (''x_val'', FloatV x_new), (''f_x'', FloatV fx_new), (''error'', FloatV err)]
        in if \<bar>fx_new\<bar> < tol then stop_converged x_new rw' s
           else if fa * fx_new < 0 then (Fall, s\<lparr>x1 := x_new, prev_x := x_new\<rparr>, rw')
           else (Fall, s\<lparr>x0 := x_new, prev_x := x_new\<rparr>, rw'))"

definition secant_branch :: "real list \<Rightarrow> real \<Rightarrow> row \<Rightarrow> vars \<Rightarrow> ctl \<times> vars \<times> row" where
  "secant_branch coeffs tol rw s =
     (let f0 = eval_poly coeffs (x0 s); f1 = eval_poly coeffs (x1 s) in
      if f1 - f0 = 0 then
        (Break, s\<lparr>error_msg := Some ''Division by zero (f(x1) - f(x0) = 0).''\<rparr>, rw)
      else
        let x2 = x1 s - (f1 * (x1 s - x0 s)) / (f1 - f0);
            err = \<bar>x2 - x1 s\<bar>;
            f2 = eval_poly coeffs x2;
            rw' = row_update rw [(''x_prev'', FloatV (x0 s)), (''x_curr'', FloatV (x1 s)),
                    (''x_val'', FloatV x2), (''f_x'', FloatV f2), (''error'', FloatV err)]
        in if err < tol then stop_converged x2 rw' s
           else (Fall, s\<lparr>x0 := x1 s, x1 := x2\<rparr>, rw'))"

definition newton_branch ::
    "real list \<Rightarrow> real list \<Rightarrow> real \<Rightarrow> row \<Rightarrow> vars \<Rightarrow> ctl \<times> vars \<times> row" where
  "newton_branch coeffs deriv_coeffs tol rw s =
     (let fx = eval_poly coeffs (curr_x s); dfx = eval_poly deriv_coeffs (curr_x s) in
      if dfx = 0 then (Break, s\<lparr>error_msg := Some ''Derivative is zero.''\<rparr>, rw)
      else
        let x_next = curr_x s - fx / dfx;
            err = \<bar>x_next - curr_x s\<bar>;
            rw' = row_update rw [(''x_curr'', FloatV (curr_x s)), (''f_x'', FloatV fx),
                    (''df_x'', FloatV dfx), (''x_val'', FloatV x_next), (''error'', FloatV err)]
        in if err < tol then stop_converged x_next rw' s
           else (Fall, s\<lparr>curr_x := x_next\<rparr>, rw'))"

definition fixed_point_branch :: "real list \<Rightarrow> real \<Rightarrow> row \<Rightarrow> vars \<Rightarrow> ctl \<times> vars \<times> row" where
  "fixed_point_branch coeffs tol rw s =
     (let x_next = eval_poly coeffs (curr_x s);
          err = \<bar>x_next - curr_x s\<bar>;
          rw' = row_update rw [(''x_curr'', FloatV (curr_x s)), (''x_val'', FloatV x_next),
                  (''error'', FloatV err)]
      in if err < tol then stop_converged x_next rw' s
         else (Fall, s\<lparr>curr_x := x_next\<rparr>, rw'))"

definition modified_secant_branch ::
    "real list \<Rightarrow> real \<Rightarrow> real \<Rightarrow> row \<Rightarrow> vars \<Rightarrow> ctl \<times> vars \<times> row" where
  "modified_secant_branch coeffs delta tol rw s =
     (let fx = eval_poly coeffs (curr_x s);
          fx_delta = eval_poly coeffs (curr_x s + delta * curr_x s);
          denom = fx_delta - fx in
      if denom = 0 then (Break, s\<lparr>error_msg := Some ''Division by zero in Mod Secant.''\<rparr>, rw)
      else
        let x_next = curr_x s - (delta * curr_x s * fx) / denom;
            err = \<bar>x_next - curr_x s\<bar>;
            rw' = row_update rw [(''x_curr'', FloatV (curr_x s)), (''f_x'', FloatV fx),
                    (''x_val'', FloatV x_next), (''error'', FloatV err)]
        in if err < tol then stop_converged x_next rw' s
           else (Fall, s\<lparr>curr_x := x_next\<rparr>, rw'))"

text \<open>
  The \<^verbatim>\<open>if/elif\<close> chain over the method name. A name that matches no branch falls
  through with the row still \<^verbatim>\<open>{'iter': i}\<close>.
\<close>

definition dispatch ::
    "string \<Rightarrow> real list \<Rightarrow> real list \<Rightarrow> real \<Rightarrow> real \<Rightarrow> int \<Rightarrow> row \<Rightarrow> vars
      \<Rightarrow> ctl \<times> vars \<times> row" where
  "dispatch method coeffs deriv_coeffs delta tol i rw s =
     (if method = ''bisection'' then bisection_branch coeffs tol rw s
      else if method = ''regula_falsi'' then regula_falsi_branch coeffs tol i rw s
      else if method = ''secant'' then secant_branch coeffs tol rw s
      else if method = ''newton'' then newton_branch coeffs deriv_coeffs tol rw s
      else if method = ''fixed_point'' then fixed_point_branch coeffs tol rw s
      else if method = ''modified_secant'' then modified_secant_branch coeffs delta tol rw s
      else (Fall, s, rw))"

text \<open>The six names that the chain tests.\<close>

definition supported :: "string \<Rightarrow> bool" where
  "supported method \<longleftrightarrow>
     method \<in> {''bisection'', ''regula_falsi'', ''secant'', ''newton'', ''fixed_point'',
               ''modified_secant''}"

text \<open>
  What one pass may do to the variables that outlive the loop: fall through with the flags
  untouched; break converged, with the row appended and its \<^verbatim>\<open>x_val\<close> as root; or break
  on a fatal condition, with a message and nothing appended.
\<close>

abbreviation (input) pass_shape :: "bool \<Rightarrow> vars \<Rightarrow> ctl \<Rightarrow> vars \<Rightarrow> row \<Rightarrow> bool" where
  "pass_shape has_x s k s' rw' \<equiv>
     (case k of
        Fall \<Rightarrow> iterations s' = iterations s \<and> \<not> converged s' \<and>
          error_msg s' = error_msg s \<and> root_v s' = root_v s \<and>
          (has_x \<longrightarrow> (case map_of rw' ''x_val'' of Some (FloatV r) \<Rightarrow> True | _ \<Rightarrow> False))
      | Break \<Rightarrow>
          if converged s'
          then error_msg s' = error_msg s \<and> iterations s' = iterations s @ [rw'] \<and>
               (case map_of rw' ''x_val'' of Some (FloatV r) \<Rightarrow> root_v s' = Some r | _ \<Rightarrow> False)
          else iterations s' = iterations s \<and> root_v s' = root_v s \<and>
               error_msg s' \<noteq> None \<and> error_msg s' \<noteq> Some [])"

text \<open>One pass of the \<^verbatim>\<open>for\<close> body: the fresh row, the chain, and the final append.\<close>

definition iteration ::
    "string \<Rightarrow> real list \<Rightarrow> real list \<Rightarrow> real \<Rightarrow> real \<Rightarrow> int \<Rightarrow> vars \<Rightarrow> ctl \<times> vars" where
  "iteration method coeffs deriv_coeffs delta tol i s =
     (case dispatch method coeffs deriv_coeffs delta tol i [(''iter'', IntV i)] s of
        (Break, s', rw) \<Rightarrow> (Break, s')
      | (Fall, s', rw) \<Rightarrow> (Fall, s'\<lparr>iterations := iterations s' @ [rw]\<rparr>))"

text \<open>
  \<^verbatim>\<open>for i in range(1, max_iter + 1)\<close> with \<^verbatim>\<open>break\<close>: the second component is the value
  of \<^verbatim>\<open>i\<close> at which the loop broke, \<open>None\<close> when the range ran out.
\<close>

fun for_loop :: "(int \<Rightarrow> vars \<Rightarrow> ctl \<times> vars) \<Rightarrow> int list \<Rightarrow> vars \<Rightarrow> vars \<times> int option" where
  "for_loop body [] s = (s, None)"
| "for_loop body (i # is) s =
     (case body i s of
        (Break, s') \<Rightarrow> (s', Some i)
      | (Fall, s') \<Rightarrow> for_loop body is s')"

text \<open>
  The loop, entered at index \<open>i\<close> in state \<open>s\<close>, breaks in that very pass with
  \<open>converged = True\<close>, the row appended and \<open>est\<close> as root.
\<close>

abbreviation (input) stops_converged ::
    "(int \<Rightarrow> vars \<Rightarrow> ctl \<times> vars) \<Rightarrow> int \<Rightarrow> int list \<Rightarrow> vars \<Rightarrow> real \<Rightarrow> bool" where
  "stops_converged body i rest s est \<equiv>
     (\<exists>rw. for_loop body (i # rest) s =
        (s\<lparr>iterations := iterations s @ [rw], root_v := Some est, converged := True\<rparr>, Some i))"

definition init_vars :: "real \<Rightarrow> real \<Rightarrow> vars" where
  "init_vars a b = \<lparr>x0 = a, x1 = b, curr_x = a, prev_x = a, iterations = [],
                    root_v = None, converged = False, error_msg = None\<rparr>"

definition run_loop ::
    "string \<Rightarrow> real list \<Rightarrow> real \<Rightarrow> real \<Rightarrow> real \<Rightarrow> real \<Rightarrow> int \<Rightarrow> vars \<times> int option" where
  "run_loop method coeffs a b delta tol max_iter =
     for_loop
       (iteration method coeffs (if method = ''newton'' then get_poly_derivative coeffs else [])
          delta tol)
       [1..max_iter] (init_vars a b)"

text \<open>
  After the loop, \<^verbatim>\<open>iterations[-1]['x_val']\<close> is outside the \<^verbatim>\<open>try\<close>: an empty trace
  raises \<^verbatim>\<open>IndexError\<close> and a last row without the field raises \<^verbatim>\<open>KeyError\<close>.
  \<^verbatim>\<open>not error_msg\<close> holds for \<^verbatim>\<open>None\<close> and for the empty string.
\<close>

datatype py_error = IndexError | KeyError string

type_synonym result = "row list \<times> real option \<times> bool \<times> string option"

definition val_float :: "val \<Rightarrow> real" where
  "val_float v = (case v of IntV n \<Rightarrow> real_of_int n | FloatV r \<Rightarrow> r)"

definition finish :: "vars \<Rightarrow> py_error + result" where
  "finish s =
     (if \<not> converged s \<and> (error_msg s = None \<or> error_msg s = Some [])
      then
        (case iterations s of
           [] \<Rightarrow> Inl IndexError
         | _ # _ \<Rightarrow>
             (case map_of (last (iterations s)) ''x_val'' of
                None \<Rightarrow> Inl (KeyError ''x_val'')
              | Some v \<Rightarrow>
                  Inr (iterations s, Some (val_float v), converged s,
                       Some ''Max iterations reached.'')))
      else Inr (iterations s, root_v s, converged s, error_msg s))"

definition solve_method ::
    "string \<Rightarrow> real list \<Rightarrow> real \<Rightarrow> real \<Rightarrow> real \<Rightarrow> real \<Rightarrow> int \<Rightarrow> py_error + result" where
  "solve_method method coeffs a b delta tol max_iter =
     finish (fst (run_loop method coeffs a b delta tol max_iter))"

section \<open>The terminal engine: solve\_loop and the method wrappers (ZOF\_CLI.py)\<close>

text \<open>
  The terminal program returns nothing; what it does is what it prints. The lines after
  the table header are kept as events: a table row, the division-by-zero line, the
  convergence line, the max-iterations line, and the bracket error of
  \<^verbatim>\<open>bracketing_method\<close>.
\<close>

datatype event =
    RowLine int "real list"  \<comment> \<open>the index and the values of one table row\<close>
  | DivisionByZeroLine  \<comment> \<open>\<^verbatim>\<open>Error: Division by zero.\<close>\<close>
  | ConvergedLine real int  \<comment> \<open>\<^verbatim>\<open>Converged: {root} in {i} iters.\<close>\<close>
  | MaxIterLine real  \<comment> \<open>\<^verbatim>\<open>Max iterations reached. Approx root: {root}\<close>\<close>
  | BracketErrorLine  \<comment> \<open>\<^verbatim>\<open>Error: f(a)*f(b) must be < 0\<close>\<close>

datatype cli_error = UnboundLocalError

text \<open>
  \<^verbatim>\<open>f_val = abs(eval_poly(coeffs, root)) if coeffs else float('inf')\<close> followed by
  \<^verbatim>\<open>f_val < tol\<close>: \<^verbatim>\<open>None\<close> and the empty list are both false in Python, and infinity is
  below no tolerance.
\<close>

definition f_val_below :: "real list option \<Rightarrow> real \<Rightarrow> real \<Rightarrow> bool" where
  "f_val_below coeffs r tol =
     (case coeffs of
        None \<Rightarrow> False
      | Some c \<Rightarrow> if c = [] then False else \<bar>eval_poly c r\<bar> < tol)"

text \<open>
  The loop of \<^verbatim>\<open>solve_loop\<close>. A step function that raises \<^verbatim>\<open>ZeroDivisionError\<close> returns
  \<open>None\<close>. The last argument is the variable \<^verbatim>\<open>root\<close>, unbound until the first step
  has returned: the final \<^verbatim>\<open>print\<close> reads it.
\<close>

fun cli_for ::
    "('s \<Rightarrow> ('s \<times> real list \<times> real \<times> real) option) \<Rightarrow> real \<Rightarrow> real list option
      \<Rightarrow> int list \<Rightarrow> 's \<Rightarrow> real option \<Rightarrow> cli_error + event list" where
  "cli_for step_func tol coeffs [] state last_root =
     (case last_root of None \<Rightarrow> Inl UnboundLocalError | Some r \<Rightarrow> Inr [MaxIterLine r])"
| "cli_for step_func tol coeffs (i # is) state last_root =
     (case step_func state of
        None \<Rightarrow> Inr [DivisionByZeroLine]
      | Some (new_state, rw, err, r) \<Rightarrow>
          if err < tol \<or> f_val_below coeffs r tol
          then Inr [RowLine i rw, ConvergedLine r i]
          else map_sum id ((#) (RowLine i rw))
                 (cli_for step_func tol coeffs is new_state (Some r)))"

definition solve_loop ::
    "'s \<Rightarrow> ('s \<Rightarrow> ('s \<times> real list \<times> real \<times> real) option) \<Rightarrow> real \<Rightarrow> int
      \<Rightarrow> real list option \<Rightarrow> cli_error + event list" where
  "solve_loop state step_func tol max_iter coeffs =
     cli_for step_func tol coeffs [1..max_iter] state None"

text \<open>\<^verbatim>\<open>bracketing_method\<close>: one sign test before the loop, none inside \<^verbatim>\<open>step\<close>.\<close>

definition bracket_step ::
    "(real \<Rightarrow> real \<Rightarrow> real \<Rightarrow> real \<Rightarrow> real option) \<Rightarrow> real list \<Rightarrow> real \<times> real
      \<Rightarrow> ((real \<times> real) \<times> real list \<times> real \<times> real) option" where
  "bracket_step calc_x c s =
     (let a = fst s; b = snd s; fa = eval_poly c a; fb = eval_poly c b in
      case calc_x a b fa fb of
        None \<Rightarrow> None
      | Some xm \<Rightarrow>
          let fxm = eval_poly c xm;
              new_s = (if fa * fxm < 0 then (a, xm) else (xm, b))
          in Some (new_s, [a, b, xm, fxm, \<bar>b - a\<bar>], \<bar>b - a\<bar>, xm))"

definition bracketing_method ::
    "(real \<Rightarrow> real \<Rightarrow> real \<Rightarrow> real \<Rightarrow> real option) \<Rightarrow> real list \<Rightarrow> real \<Rightarrow> real \<Rightarrow> real \<Rightarrow> int
      \<Rightarrow> cli_error + event list" where
  "bracketing_method calc_x c a b tol max_iter =
     (if eval_poly c a * eval_poly c b \<ge> 0 then Inr [BracketErrorLine]
      else solve_loop (a, b) (bracket_step calc_x c) tol max_iter (Some c))"

definition bisection_calc :: "real \<Rightarrow> real \<Rightarrow> real \<Rightarrow> real \<Rightarrow> real option" where
  "bisection_calc a b fa fb = Some ((a + b) / 2)"

definition regula_falsi_calc :: "real \<Rightarrow> real \<Rightarrow> real \<Rightarrow> real \<Rightarrow> real option" where
  "regula_falsi_calc a b fa fb =
     (if fb - fa = 0 then None else Some ((a * fb - b * fa) / (fb - fa)))"

text \<open>\<^verbatim>\<open>open_method\<close>: the step wraps the method's own update rule.\<close>

definition open_step ::
    "(real list \<Rightarrow> real \<Rightarrow> 'e \<Rightarrow> real option) \<Rightarrow> real list \<Rightarrow> 'e \<Rightarrow> real
      \<Rightarrow> (real \<times> real list \<times> real \<times> real) option" where
  "open_step step_logic c extra x =
     (case step_logic c x extra of
        None \<Rightarrow> None
      | Some xn \<Rightarrow> let err = \<bar>xn - x\<bar> in Some (xn, [x, xn, err], err, xn))"

definition open_method ::
    "(real list \<Rightarrow> real \<Rightarrow> 'e \<Rightarrow> real option) \<Rightarrow> 'e \<Rightarrow> real list \<Rightarrow> real \<Rightarrow> real \<Rightarrow> int
      \<Rightarrow> cli_error + event list" where
  "open_method step_logic extra c p tol max_iter =
     solve_loop p (open_step step_logic c extra) tol max_iter (Some c)"

definition newton_logic :: "real list \<Rightarrow> real \<Rightarrow> real list \<Rightarrow> real option" where
  "newton_logic c x d =
     (if eval_poly d x = 0 then None else Some (x - eval_poly c x / eval_poly d x))"

definition fixed_point_logic :: "real list \<Rightarrow> real \<Rightarrow> unit \<Rightarrow> real option" where
  "fixed_point_logic c x u = Some (eval_poly c x)"

definition modified_secant_logic :: "real list \<Rightarrow> real \<Rightarrow> real \<Rightarrow> real option" where
  "modified_secant_logic c x d =
     (if eval_poly c (x + d * x) - eval_poly c x = 0 then None
      else Some (x - (d * x * eval_poly c x) / (eval_poly c (x + d * x) - eval_poly c x)))"

definition secant_step ::
    "real list \<Rightarrow> real \<times> real \<Rightarrow> ((real \<times> real) \<times> real list \<times> real \<times> real) option" where
  "secant_step c s =
     (let p = fst s; q = snd s; f0 = eval_poly c p; f1 = eval_poly c q in
      if f1 - f0 = 0 then None
      else let x2 = q - (f1 * (q - p)) / (f1 - f0)
           in Some ((q, x2), [p, q, x2, \<bar>x2 - q\<bar>], \<bar>x2 - q\<bar>, x2))"

text \<open>The six entries of the menu in \<^verbatim>\<open>main\<close>, with the prompted values as arguments.\<close>

definition cli_bisection :: "real list \<Rightarrow> real \<Rightarrow> real \<Rightarrow> real \<Rightarrow> int \<Rightarrow> cli_error + event list" where
  "cli_bisection c a b tol max_iter = bracketing_method bisection_calc c a b tol max_iter"

definition cli_regula_falsi ::
    "real list \<Rightarrow> real \<Rightarrow> real \<Rightarrow> real \<Rightarrow> int \<Rightarrow> cli_error + event list" where
  "cli_regula_falsi c a b tol max_iter = bracketing_method regula_falsi_calc c a b tol max_iter"

definition cli_secant :: "real list \<Rightarrow> real \<Rightarrow> real \<Rightarrow> real \<Rightarrow> int \<Rightarrow> cli_error + event list" where
  "cli_secant c p q tol max_iter = solve_loop (p, q) (secant_step c) tol max_iter (Some c)"

definition cli_newton :: "real list \<Rightarrow> real \<Rightarrow> real \<Rightarrow> int \<Rightarrow> cli_error + event list" where
  "cli_newton c p tol max_iter = open_method newton_logic (cli_derivative c) c p tol max_iter"

definition cli_fixed_point :: "real list \<Rightarrow> real \<Rightarrow> real \<Rightarrow> int \<Rightarrow> cli_error + event list" where
  "cli_fixed_point c p tol max_iter = open_method fixed_point_logic () c p tol max_iter"

definition cli_modified_secant ::
    "real list \<Rightarrow> real \<Rightarrow> real \<Rightarrow> real \<Rightarrow> int \<Rightarrow> cli_error + event list" where
  "cli_modified_secant c delta p tol max_iter =
     open_method modified_secant_logic delta c p tol max_iter"

section \<open>Brackets\<close>


abbreviation (input) lies_strictly_between :: "real \<Rightarrow> real \<Rightarrow> real \<Rightarrow> bool" where
  "lies_strictly_between a x b \<equiv> (a < x \<and> x < b) \<or> (b < x \<and> x < a)"


section \<open>Basic facts\<close>

lemma eval_poly_Nil: "eval_poly [] x = 0"
  by (simp add: eval_poly_def)

lemma upto_first: "(1::int) \<le> n \<Longrightarrow> [1..n] = 1 # [2..n]"
  by (simp add: upto_rec1)

lemma init_vars_simps:
  "x0 (init_vars a b) = a" "x1 (init_vars a b) = b" "curr_x (init_vars a b) = a"
  "prev_x (init_vars a b) = a" "iterations (init_vars a b) = []"
  "root_v (init_vars a b) = None" "converged (init_vars a b) = False"
  "error_msg (init_vars a b) = None"
  by (simp_all add: init_vars_def)

lemma not_bracketed_nonempty: "not_bracketed \<noteq> []"
  by (simp add: not_bracketed_def)

section \<open>Derivative coefficients\<close>

lemma derivative_length:
  "2 \<le> length coeffs \<Longrightarrow> length (get_poly_derivative coeffs) = length coeffs - 1"
  by (simp add: get_poly_derivative_def Let_def)

lemma derivative_nth:
  "2 \<le> length coeffs \<Longrightarrow> i < length coeffs - 1 \<Longrightarrow>
   get_poly_derivative coeffs ! i = coeffs ! i * real (length coeffs - 1 - i)"
proof -
  assume len: "2 \<le> length coeffs" and i: "i < length coeffs - 1"
  have n: "nat (int (length coeffs) - 1) = length coeffs - 1" by simp
  have "int (length coeffs) - 1 - int i = int (length coeffs - 1 - i)"
    using len i by simp
  then show ?thesis
    using len i by (simp add: get_poly_derivative_def Let_def n del: of_nat_diff)
qed

lemma cli_derivative_agrees:
  "2 \<le> length coeffs \<Longrightarrow> cli_derivative coeffs = get_poly_derivative coeffs"
  by (simp add: get_poly_derivative_def cli_derivative_def Let_def)

lemma derivative_constant: "length coeffs \<le> 1 \<Longrightarrow> get_poly_derivative coeffs = [0]"
  by (simp add: get_poly_derivative_def Let_def)

lemma cli_derivative_constant: "length coeffs \<le> 1 \<Longrightarrow> cli_derivative coeffs = []"
  by (simp add: cli_derivative_def)

text \<open>
  Claim C8, as the code has it. A coefficient list of length \<open>n + 1\<close> with \<open>n \<ge> 1\<close> has
  degree \<open>n\<close>: \<^verbatim>\<open>get_poly_derivative\<close> returns \<open>n\<close> coefficients, the \<open>i\<close>-th being the
  \<open>i\<close>-th input coefficient times \<open>n - i\<close>, and the terminal program's derivative lambda
  returns the same list. For a constant (one coefficient) \<^verbatim>\<open>get_poly_derivative\<close> returns
  \<open>[0]\<close>, while the terminal program's lambda returns the empty list.
\<close>

theorem derivative_coefficients:
  "(2 \<le> length coeffs \<longrightarrow>
      length (get_poly_derivative coeffs) = length coeffs - 1 \<and>
      (\<forall>i < length coeffs - 1.
         get_poly_derivative coeffs ! i = coeffs ! i * real (length coeffs - 1 - i)) \<and>
      cli_derivative coeffs = get_poly_derivative coeffs) \<and>
   (length coeffs = 1 \<longrightarrow> get_poly_derivative coeffs = [0] \<and> cli_derivative coeffs = [])"
  using derivative_length derivative_nth cli_derivative_agrees derivative_constant
    cli_derivative_constant by simp

text \<open>The theorem of C8 at \<open>3x\<^sup>2 + 2x + 1\<close> and at the constant \<open>5\<close>.\<close>

theorem derivative_coefficients_witness:
  "get_poly_derivative [3, 2, 1] = [6, 2] \<and> cli_derivative [3, 2, 1] = [6, 2] \<and>
   get_poly_derivative [5] = [0] \<and> cli_derivative [5] = []"
proof -
  have a: "get_poly_derivative [3, 2, 1] = [6, 2]"
    by (simp add: get_poly_derivative_def Let_def upt_rec)
  from derivative_coefficients [of "[3, 2, 1]"]
  have "cli_derivative [3, 2, 1] = get_poly_derivative [3, 2, 1]"
    by simp
  moreover from derivative_coefficients [of "[5]"]
  have "get_poly_derivative [5] = [0] \<and> cli_derivative [5] = []"
    by simp
  ultimately show ?thesis using a by simp
qed

text \<open>
  Claim C8 as stated fails for the terminal program's derivative: on the constant
  polynomial \<open>5\<close> it returns no coefficient at all, not the single coefficient \<open>0\<close>.
\<close>

theorem cli_derivative_constant_counterexample:
  "cli_derivative [5] = [] \<and> cli_derivative [5] \<noteq> [0]"
  by (simp add: cli_derivative_def)

section \<open>A method name outside the six\<close>

lemma iteration_unsupported:
  "\<not> supported method \<Longrightarrow>
   iteration method coeffs d delta tol i s =
     (Fall, s\<lparr>iterations := iterations s @ [[(''iter'', IntV i)]]\<rparr>)"
  by (simp add: iteration_def dispatch_def supported_def)

lemma for_loop_unsupported:
  "\<not> supported method \<Longrightarrow>
   for_loop (iteration method coeffs d delta tol) js s =
     (s\<lparr>iterations := iterations s @ map (\<lambda>i. [(''iter'', IntV i)]) js\<rparr>, None)"
  by (induction js arbitrary: s) (simp_all add: iteration_unsupported)

text \<open>
  Claim C9. With a method name that is none of the six and \<open>max_iter \<ge> 1\<close>, every row
  appended by the loop holds the iteration index only, the loop runs out, and
  \<^verbatim>\<open>solve_method\<close> returns no result: reading \<^verbatim>\<open>x_val\<close> from the last row raises
  \<^verbatim>\<open>KeyError\<close>.
\<close>

theorem unsupported_method_key_error:
  assumes "\<not> supported method" and "1 \<le> max_iter"
  shows "iterations (fst (run_loop method coeffs a b delta tol max_iter)) =
           map (\<lambda>i. [(''iter'', IntV i)]) [1..max_iter] \<and>
         solve_method method coeffs a b delta tol max_iter = Inl (KeyError ''x_val'')"
proof -
  let ?tr = "map (\<lambda>i. [(''iter'', IntV i)]) [1..max_iter]"
  have run: "run_loop method coeffs a b delta tol max_iter =
      ((init_vars a b)\<lparr>iterations := ?tr\<rparr>, None)"
    using assms(1) by (simp add: run_loop_def for_loop_unsupported init_vars_simps)
  have ne: "[1..max_iter] \<noteq> []" using assms(2) by simp
  then obtain r rs where tr: "?tr = r # rs" by (cases "[1..max_iter]") auto
  have "last ?tr = [(''iter'', IntV (last [1..max_iter]))]"
    using ne by (simp add: last_map)
  then have "map_of (last ?tr) ''x_val'' = None" by simp
  then have "solve_method method coeffs a b delta tol max_iter = Inl (KeyError ''x_val'')"
    unfolding solve_method_def run finish_def using tr
    by (simp add: init_vars_simps)
  then show ?thesis using run by simp
qed

text \<open>The theorem of C9 at the method name \<^verbatim>\<open>brent\<close> with two iterations.\<close>

theorem unsupported_method_key_error_witness:
  "\<not> supported ''brent'' \<and> (1::int) \<le> 2 \<and>
   iterations (fst (run_loop ''brent'' [1, 0, -2] 1 2 (1/100) (1/10000) 2)) =
     [[(''iter'', IntV 1)], [(''iter'', IntV 2)]] \<and>
   solve_method ''brent'' [1, 0, -2] 1 2 (1/100) (1/10000) 2 = Inl (KeyError ''x_val'')"
proof -
  have u: "\<not> supported ''brent''" by (simp add: supported_def)
  have l: "[1..2::int] = [1, 2]" by (simp add: upto_rec1)
  show ?thesis
    using unsupported_method_key_error [OF u, of 2 "[1, 0, -2]" 1 2 "1/100" "1/10000"] u
    by (simp add: l)
qed

section \<open>Fatal conditions at the first iteration\<close>

lemma iteration_not_bracketed:
  assumes "method = ''bisection'' \<or> method = ''regula_falsi''"
      and "eval_poly coeffs (x0 s) * eval_poly coeffs (x1 s) \<ge> 0"
  shows "iteration method coeffs d delta tol i s = (Break, s\<lparr>error_msg := Some not_bracketed\<rparr>)"
  using assms
  by (auto simp add: iteration_def dispatch_def bisection_branch_def regula_falsi_branch_def
        Let_def)

text \<open>
  Claim C5. A bracketing method of the web engine, called with at least one iteration
  allowed on an interval where \<open>f(a) * f(b) \<ge> 0\<close>, returns an empty trace, no root,
  \<open>converged = False\<close> and the message that the root is not bracketed.
\<close>

theorem no_sign_change_result:
  assumes "method = ''bisection'' \<or> method = ''regula_falsi''"
      and "eval_poly coeffs a * eval_poly coeffs b \<ge> 0"
      and "1 \<le> max_iter"
  shows "solve_method method coeffs a b delta tol max_iter =
           Inr ([], None, False, Some not_bracketed)"
proof -
  let ?d = "if method = ''newton'' then get_poly_derivative coeffs else []"
  have "iteration method coeffs ?d delta tol 1 (init_vars a b) =
          (Break, (init_vars a b)\<lparr>error_msg := Some not_bracketed\<rparr>)"
    using assms(1,2) by (intro iteration_not_bracketed) (simp_all add: init_vars_simps)
  then have "run_loop method coeffs a b delta tol max_iter =
          ((init_vars a b)\<lparr>error_msg := Some not_bracketed\<rparr>, Some 1)"
    using assms(3) by (simp add: run_loop_def upto_first)
  then show ?thesis
    by (simp add: solve_method_def finish_def init_vars_simps not_bracketed_nonempty)
qed

text \<open>The theorem of C5 at the claim's own example: \<open>x\<^sup>2 + 2\<close> on \<open>[1, 2]\<close>.\<close>

theorem no_sign_change_result_witness:
  "solve_method ''bisection'' [1, 0, 2] 1 2 (1/100) (1/10000) 10 =
     Inr ([], None, False,
          Some ''Root not bracketed. f(a) and f(b) must have opposite signs.'') \<and>
   solve_method ''regula_falsi'' [1, 0, 2] 1 2 (1/100) (1/10000) 10 =
     Inr ([], None, False,
          Some ''Root not bracketed. f(a) and f(b) must have opposite signs.'')"
proof -
  have f: "eval_poly [1, 0, 2] 1 * eval_poly [1, 0, 2] 2 \<ge> 0"
    by (simp add: eval_poly_def)
  have n: "(1::int) \<le> 10" by simp
  show ?thesis
    using no_sign_change_result [OF _ f n, of "''bisection''" "1/100" "1/10000"]
          no_sign_change_result [OF _ f n, of "''regula_falsi''" "1/100" "1/10000"]
    by (simp add: not_bracketed_def)
qed

lemma cli_derivative_zero:
  assumes "eval_poly (get_poly_derivative coeffs) p = 0"
  shows "eval_poly (cli_derivative coeffs) p = 0"
proof (cases "2 \<le> length coeffs")
  case True
  then have "cli_derivative coeffs = get_poly_derivative coeffs"
    by (rule cli_derivative_agrees)
  with assms show ?thesis by simp
next
  case False
  then have "cli_derivative coeffs = []" by (simp add: cli_derivative_def)
  then show ?thesis by (simp add: eval_poly_Nil)
qed

text \<open>
  Claim C6. Newton-Raphson started where the derivative is zero, with at least one
  iteration allowed: the web engine returns an empty trace, no root, \<open>converged = False\<close>
  and the message \<^verbatim>\<open>Derivative is zero.\<close>; the terminal engine prints the
  division-by-zero line and no table row.
\<close>

theorem newton_zero_derivative:
  assumes "eval_poly (get_poly_derivative coeffs) p = 0" and "1 \<le> max_iter"
  shows "solve_method ''newton'' coeffs p b delta tol max_iter =
           Inr ([], None, False, Some ''Derivative is zero.'') \<and>
         cli_newton coeffs p tol max_iter = Inr [DivisionByZeroLine]"
proof -
  have "iteration ''newton'' coeffs (get_poly_derivative coeffs) delta tol 1 (init_vars p b) =
          (Break, (init_vars p b)\<lparr>error_msg := Some ''Derivative is zero.''\<rparr>)"
    using assms(1) by (simp add: iteration_def dispatch_def newton_branch_def init_vars_simps)
  then have "run_loop ''newton'' coeffs p b delta tol max_iter =
          ((init_vars p b)\<lparr>error_msg := Some ''Derivative is zero.''\<rparr>, Some 1)"
    using assms(2) by (simp add: run_loop_def upto_first)
  then have web: "solve_method ''newton'' coeffs p b delta tol max_iter =
           Inr ([], None, False, Some ''Derivative is zero.'')"
    by (simp add: solve_method_def finish_def init_vars_simps)
  have "open_step newton_logic coeffs (cli_derivative coeffs) p = None"
    using cli_derivative_zero [OF assms(1)] by (simp add: open_step_def newton_logic_def)
  then have "cli_newton coeffs p tol max_iter = Inr [DivisionByZeroLine]"
    using assms(2) by (simp add: cli_newton_def open_method_def solve_loop_def upto_first)
  with web show ?thesis by simp
qed

text \<open>The theorem of C6 at the claim's own example: \<open>x\<^sup>2\<close> started at \<open>0\<close>.\<close>

theorem newton_zero_derivative_witness:
  "solve_method ''newton'' [1, 0, 0] 0 0 (1/100) (1/10000) 10 =
     Inr ([], None, False, Some ''Derivative is zero.'') \<and>
   cli_newton [1, 0, 0] 0 (1/10000) 10 = Inr [DivisionByZeroLine]"
proof -
  have d: "eval_poly (get_poly_derivative [1, 0, 0]) 0 = 0"
    by (simp add: get_poly_derivative_def eval_poly_def Let_def upt_rec)
  have n: "(1::int) \<le> 10" by simp
  show ?thesis using newton_zero_derivative [OF d n] by simp
qed

section \<open>One pass of the loop and the whole loop\<close>

lemma map_of_row_update:
  "map_of (row_update r kvs) = fold (\<lambda>kv m. m(fst kv \<mapsto> snd kv)) kvs (map_of r)"
  unfolding row_update_def
  by (induction kvs arbitrary: r) (simp_all add: update_conv')

lemma bisection_branch_shape:
  "\<not> converged s \<Longrightarrow> bisection_branch coeffs tol rw s = (k, s', rw') \<Longrightarrow> pass_shape True s k s' rw'"
  unfolding bisection_branch_def stop_converged_def Let_def
  by (auto simp add: map_of_row_update not_bracketed_def split: if_splits)

lemma regula_falsi_branch_shape:
  "\<not> converged s \<Longrightarrow> regula_falsi_branch coeffs tol i rw s = (k, s', rw') \<Longrightarrow> pass_shape True s k s' rw'"
  unfolding regula_falsi_branch_def stop_converged_def Let_def
  by (auto simp add: map_of_row_update not_bracketed_def split: if_splits)

lemma secant_branch_shape:
  "\<not> converged s \<Longrightarrow> secant_branch coeffs tol rw s = (k, s', rw') \<Longrightarrow> pass_shape True s k s' rw'"
  unfolding secant_branch_def stop_converged_def Let_def
  by (auto simp add: map_of_row_update split: if_splits)

lemma newton_branch_shape:
  "\<not> converged s \<Longrightarrow> newton_branch coeffs d tol rw s = (k, s', rw') \<Longrightarrow> pass_shape True s k s' rw'"
  unfolding newton_branch_def stop_converged_def Let_def
  by (auto simp add: map_of_row_update split: if_splits)

lemma fixed_point_branch_shape:
  "\<not> converged s \<Longrightarrow> fixed_point_branch coeffs tol rw s = (k, s', rw') \<Longrightarrow> pass_shape True s k s' rw'"
  unfolding fixed_point_branch_def stop_converged_def Let_def
  by (auto simp add: map_of_row_update split: if_splits)

lemma modified_secant_branch_shape:
  "\<not> converged s \<Longrightarrow> modified_secant_branch coeffs delta tol rw s = (k, s', rw') \<Longrightarrow> pass_shape True s k s' rw'"
  unfolding modified_secant_branch_def stop_converged_def Let_def
  by (auto simp add: map_of_row_update split: if_splits)

lemma supported_iff:
  "supported method \<longleftrightarrow> method = ''bisection'' \<or> method = ''regula_falsi'' \<or>
     method = ''secant'' \<or> method = ''newton'' \<or> method = ''fixed_point'' \<or>
     method = ''modified_secant''"
  by (simp add: supported_def)

lemma dispatch_shape:
  assumes nc: "\<not> converged s"
      and d: "dispatch method coeffs d delta tol i rw s = (k, s', rw')"
  shows "pass_shape (supported method) s k s' rw'"
proof (cases "supported method")
  case True
  have "pass_shape True s k s' rw'"
  proof -
    from True have "method = ''bisection'' \<or> method = ''regula_falsi'' \<or>
       method = ''secant'' \<or> method = ''newton'' \<or> method = ''fixed_point'' \<or>
       method = ''modified_secant''" by (simp only: supported_iff)
    then show ?thesis
    proof (elim disjE)
      assume "method = ''bisection''"
      with d have "bisection_branch coeffs tol rw s = (k, s', rw')"
        by (simp add: dispatch_def)
      then show ?thesis by (rule bisection_branch_shape [OF nc])
    next
      assume "method = ''regula_falsi''"
      with d have "regula_falsi_branch coeffs tol i rw s = (k, s', rw')"
        by (simp add: dispatch_def)
      then show ?thesis by (rule regula_falsi_branch_shape [OF nc])
    next
      assume "method = ''secant''"
      with d have "secant_branch coeffs tol rw s = (k, s', rw')"
        by (simp add: dispatch_def)
      then show ?thesis by (rule secant_branch_shape [OF nc])
    next
      assume "method = ''newton''"
      with d have "newton_branch coeffs d tol rw s = (k, s', rw')"
        by (simp add: dispatch_def)
      then show ?thesis by (rule newton_branch_shape [OF nc])
    next
      assume "method = ''fixed_point''"
      with d have "fixed_point_branch coeffs tol rw s = (k, s', rw')"
        by (simp add: dispatch_def)
      then show ?thesis by (rule fixed_point_branch_shape [OF nc])
    next
      assume "method = ''modified_secant''"
      with d have "modified_secant_branch coeffs delta tol rw s = (k, s', rw')"
        by (simp add: dispatch_def)
      then show ?thesis by (rule modified_secant_branch_shape [OF nc])
    qed
  qed
  with True show ?thesis by (cases k) simp_all
next
  case False
  then have "dispatch method coeffs d delta tol i rw s = (Fall, s, rw)"
    by (simp add: dispatch_def supported_iff)
  with d nc False show ?thesis by auto
qed

text \<open>One pass of the loop, with the append after the chain.\<close>

lemma iteration_Fall:
  assumes "\<not> converged s" and "iteration method coeffs d delta tol i s = (Fall, s')"
  shows "\<not> converged s' \<and> error_msg s' = error_msg s \<and> root_v s' = root_v s \<and>
         (\<exists>rw. iterations s' = iterations s @ [rw] \<and>
            (supported method \<longrightarrow> (\<exists>r. map_of rw ''x_val'' = Some (FloatV r))))"
proof -
  obtain k t rw where dp: "dispatch method coeffs d delta tol i [(''iter'', IntV i)] s = (k, t, rw)"
    by (cases "dispatch method coeffs d delta tol i [(''iter'', IntV i)] s") auto
  with assms(2) have k: "k = Fall" and s': "s' = t\<lparr>iterations := iterations t @ [rw]\<rparr>"
    by (cases k; simp add: iteration_def)+
  from dp k have dp': "dispatch method coeffs d delta tol i [(''iter'', IntV i)] s = (Fall, t, rw)"
    by simp
  from dispatch_shape [OF assms(1) dp']
  have sh: "iterations t = iterations s" "\<not> converged t" "error_msg t = error_msg s"
    "root_v t = root_v s"
    "supported method \<longrightarrow> (case map_of rw ''x_val'' of Some (FloatV r) \<Rightarrow> True | _ \<Rightarrow> False)"
    by simp_all
  from sh(5) have "supported method \<longrightarrow> (\<exists>r. map_of rw ''x_val'' = Some (FloatV r))"
    by (auto split: option.splits val.splits)
  with sh s' show ?thesis by simp
qed

lemma iteration_Break:
  assumes "\<not> converged s" and "iteration method coeffs d delta tol i s = (Break, s')"
  shows "if converged s'
         then error_msg s' = error_msg s \<and>
              (\<exists>rw r. iterations s' = iterations s @ [rw] \<and> root_v s' = Some r \<and>
                        map_of rw ''x_val'' = Some (FloatV r))
         else iterations s' = iterations s \<and> root_v s' = root_v s \<and>
              error_msg s' \<noteq> None \<and> error_msg s' \<noteq> Some []"
proof -
  obtain k t rw where dp: "dispatch method coeffs d delta tol i [(''iter'', IntV i)] s = (k, t, rw)"
    by (cases "dispatch method coeffs d delta tol i [(''iter'', IntV i)] s") auto
  with assms(2) have k: "k = Break" and s': "s' = t"
    by (cases k; simp add: iteration_def)+
  from dp k s' have dp': "dispatch method coeffs d delta tol i [(''iter'', IntV i)] s = (Break, s', rw)"
    by simp
  from dispatch_shape [OF assms(1) dp']
  have sh: "if converged s'
          then error_msg s' = error_msg s \<and> iterations s' = iterations s @ [rw] \<and>
               (case map_of rw ''x_val'' of Some (FloatV r) \<Rightarrow> root_v s' = Some r | _ \<Rightarrow> False)
          else iterations s' = iterations s \<and> root_v s' = root_v s \<and>
               error_msg s' \<noteq> None \<and> error_msg s' \<noteq> Some []"
    by simp
  show ?thesis
  proof (cases "converged s'")
    case True
    with sh have a: "error_msg s' = error_msg s" "iterations s' = iterations s @ [rw]"
      and b: "case map_of rw ''x_val'' of Some (FloatV r) \<Rightarrow> root_v s' = Some r | _ \<Rightarrow> False"
      by simp_all
    from b obtain r where "map_of rw ''x_val'' = Some (FloatV r)" "root_v s' = Some r"
      by (auto split: option.splits val.splits)
    with a True show ?thesis by auto
  next
    case False
    with sh show ?thesis by simp
  qed
qed

text \<open>The whole loop, over any list of indices.\<close>

lemma for_loop_lengths:
  assumes "for_loop (iteration method coeffs d delta tol) js s = (s', stop)"
      and "\<not> converged s" and "error_msg s = None"
  shows "case stop of
           None \<Rightarrow> length (iterations s') = length (iterations s) + length js \<and>
             \<not> converged s' \<and> error_msg s' = None \<and> root_v s' = root_v s
         | Some i \<Rightarrow> (\<exists>pre post. js = pre @ i # post \<and>
             (if converged s'
              then length (iterations s') = length (iterations s) + length pre + 1 \<and>
                   error_msg s' = None \<and>
                   (\<exists>r. root_v s' = Some r \<and>
                         map_of (last (iterations s')) ''x_val'' = Some (FloatV r))
              else length (iterations s') = length (iterations s) + length pre \<and>
                   root_v s' = root_v s \<and>
                   error_msg s' \<noteq> None \<and> error_msg s' \<noteq> Some []))"
  using assms
proof (induction js arbitrary: s)
  case Nil
  then show ?case by auto
next
  case (Cons j js)
  obtain k t where it: "iteration method coeffs d delta tol j s = (k, t)"
    by (cases "iteration method coeffs d delta tol j s") auto
  show ?case
  proof (cases k)
    case Break
    with it Cons.prems(1) have st: "s' = t" "stop = Some j" by simp_all
    from it Break st have itB: "iteration method coeffs d delta tol j s = (Break, s')" by simp
    from iteration_Break [OF Cons.prems(2) itB]
    have sh: "if converged s'
         then error_msg s' = error_msg s \<and>
              (\<exists>rw r. iterations s' = iterations s @ [rw] \<and> root_v s' = Some r \<and>
                        map_of rw ''x_val'' = Some (FloatV r))
         else iterations s' = iterations s \<and> root_v s' = root_v s \<and>
              error_msg s' \<noteq> None \<and> error_msg s' \<noteq> Some []"
      by simp
    have "j # js = [] @ j # js" by simp
    moreover have "if converged s'
              then length (iterations s') = length (iterations s) + length ([]::int list) + 1 \<and>
                   error_msg s' = None \<and>
                   (\<exists>r. root_v s' = Some r \<and>
                         map_of (last (iterations s')) ''x_val'' = Some (FloatV r))
              else length (iterations s') = length (iterations s) + length ([]::int list) \<and>
                   root_v s' = root_v s \<and>
                   error_msg s' \<noteq> None \<and> error_msg s' \<noteq> Some []"
      using sh Cons.prems(3) by (cases "converged s'") auto
    ultimately show ?thesis unfolding st by (simp only: option.case) blast
  next
    case Fall
    with it Cons.prems(1) have rec: "for_loop (iteration method coeffs d delta tol) js t = (s', stop)"
      by simp
    from it Fall have itF: "iteration method coeffs d delta tol j s = (Fall, t)" by simp
    from iteration_Fall [OF Cons.prems(2) itF]
    have t: "\<not> converged t" "error_msg t = error_msg s" "root_v t = root_v s"
      "length (iterations t) = length (iterations s) + 1"
      by auto
    from Cons.IH [OF rec t(1)] t(2) Cons.prems(3)
    have ih: "case stop of
           None \<Rightarrow> length (iterations s') = length (iterations t) + length js \<and>
             \<not> converged s' \<and> error_msg s' = None \<and> root_v s' = root_v t
         | Some i \<Rightarrow> (\<exists>pre post. js = pre @ i # post \<and>
             (if converged s'
              then length (iterations s') = length (iterations t) + length pre + 1 \<and>
                   error_msg s' = None \<and>
                   (\<exists>r. root_v s' = Some r \<and>
                         map_of (last (iterations s')) ''x_val'' = Some (FloatV r))
              else length (iterations s') = length (iterations t) + length pre \<and>
                   root_v s' = root_v t \<and>
                   error_msg s' \<noteq> None \<and> error_msg s' \<noteq> Some []))"
      by simp
    show ?thesis
    proof (cases stop)
      case None
      with ih t show ?thesis by simp
    next
      case (Some i)
      with ih obtain pre post where pp: "js = pre @ i # post"
        and body: "if converged s'
              then length (iterations s') = length (iterations t) + length pre + 1 \<and>
                   error_msg s' = None \<and>
                   (\<exists>r. root_v s' = Some r \<and>
                         map_of (last (iterations s')) ''x_val'' = Some (FloatV r))
              else length (iterations s') = length (iterations t) + length pre \<and>
                   root_v s' = root_v t \<and>
                   error_msg s' \<noteq> None \<and> error_msg s' \<noteq> Some []"
        by auto
      have "j # js = (j # pre) @ i # post" using pp by simp
      moreover have "if converged s'
              then length (iterations s') = length (iterations s) + length (j # pre) + 1 \<and>
                   error_msg s' = None \<and>
                   (\<exists>r. root_v s' = Some r \<and>
                         map_of (last (iterations s')) ''x_val'' = Some (FloatV r))
              else length (iterations s') = length (iterations s) + length (j # pre) \<and>
                   root_v s' = root_v s \<and>
                   error_msg s' \<noteq> None \<and> error_msg s' \<noteq> Some []"
        using body t by (cases "converged s'") auto
      ultimately show ?thesis unfolding Some by (simp only: option.case) blast
    qed
  qed
qed

lemma for_loop_exhausted_last:
  assumes "for_loop (iteration method coeffs d delta tol) js s = (s', None)"
      and "supported method" and "\<not> converged s"
      and "js \<noteq> [] \<or> (iterations s \<noteq> [] \<and>
             (\<exists>r. map_of (last (iterations s)) ''x_val'' = Some (FloatV r)))"
  shows "iterations s' \<noteq> [] \<and> (\<exists>r. map_of (last (iterations s')) ''x_val'' = Some (FloatV r))"
  using assms
proof (induction js arbitrary: s)
  case Nil
  then show ?case by simp
next
  case (Cons j js)
  obtain k t where it: "iteration method coeffs d delta tol j s = (k, t)"
    by (cases "iteration method coeffs d delta tol j s") auto
  with Cons.prems(1) have k: "k = Fall"
    and rec: "for_loop (iteration method coeffs d delta tol) js t = (s', None)"
    by (cases k; simp)+
  from it k have itF: "iteration method coeffs d delta tol j s = (Fall, t)" by simp
  from iteration_Fall [OF Cons.prems(3) itF] Cons.prems(2)
  have t: "\<not> converged t"
    "iterations t \<noteq> [] \<and> (\<exists>r. map_of (last (iterations t)) ''x_val'' = Some (FloatV r))"
    by auto
  show ?case by (rule Cons.IH [OF rec Cons.prems(2) t(1)]) (simp add: t(2))
qed

lemma upto_split_index:
  assumes "[1..n] = pre @ i # post"
  shows "int (length pre) = i - 1 \<and> 1 \<le> i \<and> i \<le> n"
proof -
  have len: "length pre < length [1..n]" using assms by simp
  then have "1 + int (length pre) \<le> n" by simp
  then have "[1..n] ! length pre = 1 + int (length pre)" by (rule nth_upto)
  moreover have "[1..n] ! length pre = i" using assms by simp
  ultimately have "i = 1 + int (length pre)" by simp
  moreover have "i \<in> set [1..n]" using assms by simp
  ultimately show ?thesis by simp
qed

section \<open>Evaluating concrete runs\<close>

lemmas web_eval =
  solve_method_def finish_def run_loop_def iteration_def dispatch_def init_vars_def
  bisection_branch_def regula_falsi_branch_def secant_branch_def newton_branch_def
  fixed_point_branch_def modified_secant_branch_def stop_converged_def row_update_def
  eval_poly_def val_float_def not_bracketed_def Let_def upto_rec1

lemma derivative_example: "get_poly_derivative [1, 0, -2] = [2, 0]"
  by (simp add: get_poly_derivative_def Let_def upt_rec)

lemma derivative_square: "get_poly_derivative [1, 0, 0] = [2, 0]"
  by (simp add: get_poly_derivative_def Let_def upt_rec)

lemmas cli_eval =
  cli_bisection_def cli_regula_falsi_def cli_secant_def cli_newton_def cli_fixed_point_def
  cli_modified_secant_def bracketing_method_def open_method_def solve_loop_def bracket_step_def
  open_step_def secant_step_def bisection_calc_def regula_falsi_calc_def newton_logic_def
  fixed_point_logic_def modified_secant_logic_def f_val_below_def eval_poly_def Let_def
  upto_rec1

section \<open>Length of the trace\<close>

text \<open>
  Claim C2, as the code has it. Whenever \<^verbatim>\<open>solve_method\<close> returns a result, the trace has at
  most \<open>max_iter\<close> rows. If the loop ran out, the trace has exactly \<open>max_iter\<close> rows. If the
  loop broke at index \<open>i\<close> on convergence, the trace has \<open>i\<close> rows. If it broke at index
  \<open>i\<close> on a fatal condition (bracket violation or zero denominator), the trace has
  \<open>i - 1\<close> rows: the failing pass appends nothing.
\<close>

theorem trace_length:
  assumes "solve_method method coeffs a b delta tol max_iter = Inr (tr, rt, cv, msg)"
  shows "int (length tr) \<le> max_iter \<and>
         (case snd (run_loop method coeffs a b delta tol max_iter) of
            None \<Rightarrow> int (length tr) = max_iter \<and> \<not> cv
          | Some i \<Rightarrow> 1 \<le> i \<and> i \<le> max_iter \<and>
              (if cv then int (length tr) = i
               else int (length tr) = i - 1 \<and> msg \<noteq> None))"
proof -
  let ?d = "if method = ''newton'' then get_poly_derivative coeffs else []"
  obtain s stop where rl: "run_loop method coeffs a b delta tol max_iter = (s, stop)"
    by (cases "run_loop method coeffs a b delta tol max_iter") auto
  then have fl: "for_loop (iteration method coeffs ?d delta tol) [1..max_iter] (init_vars a b)
                   = (s, stop)"
    by (simp add: run_loop_def)
  have fin: "finish s = Inr (tr, rt, cv, msg)"
    using assms rl by (simp add: solve_method_def)
  note L = for_loop_lengths [OF fl, simplified init_vars_simps, simplified]
  show ?thesis
  proof (cases stop)
    case None
    with L have l: "length (iterations s) = nat max_iter" "\<not> converged s" "error_msg s = None"
      by simp_all
    with fin have ne: "iterations s \<noteq> []" and tr: "tr = iterations s" and cv: "\<not> cv"
      by (auto simp add: finish_def split: list.splits option.splits)
    from ne l(1) have "0 < max_iter" by (cases "0 < max_iter") auto
    with l(1) tr cv rl None show ?thesis by simp
  next
    case (Some i)
    with L obtain pre post where pp: "[1..max_iter] = pre @ i # post"
      and body: "if converged s
              then length (iterations s) = length pre + 1 \<and> error_msg s = None
              else length (iterations s) = length pre \<and>
                   error_msg s \<noteq> None \<and> error_msg s \<noteq> Some []"
      by (cases "converged s") auto
    from upto_split_index [OF pp] have i: "int (length pre) = i - 1" "1 \<le> i" "i \<le> max_iter"
      by simp_all
    show ?thesis
    proof (cases "converged s")
      case True
      with fin have "tr = iterations s" "cv" by (simp_all add: finish_def)
      with body True i rl Some show ?thesis by simp
    next
      case False
      with body have e: "error_msg s \<noteq> None" "error_msg s \<noteq> Some []"
        and l: "length (iterations s) = length pre" by simp_all
      with fin False have "tr = iterations s" "\<not> cv" "msg = error_msg s"
        by (simp_all add: finish_def)
      with e l i rl Some show ?thesis by simp
    qed
  qed
qed

text \<open>The theorem of C2 at a bisection run that converges in its second pass.\<close>

theorem trace_length_witness:
  "solve_method ''bisection'' [1, 0, -2] 0 2 (1/100) (1/2) 5 =
     Inr ([[(''iter'', IntV 1), (''a'', FloatV 0), (''b'', FloatV 2), (''x_val'', FloatV 1),
            (''f_x'', FloatV (- 1)), (''error'', FloatV 2)],
           [(''iter'', IntV 2), (''a'', FloatV 1), (''b'', FloatV 2), (''x_val'', FloatV (3 / 2)),
            (''f_x'', FloatV (1 / 4)), (''error'', FloatV 1)]],
          Some (3 / 2), True, None) \<and>
   snd (run_loop ''bisection'' [1, 0, -2] 0 2 (1/100) (1/2) 5) = Some 2"
proof -
  have h: "solve_method ''bisection'' [1, 0, -2] 0 2 (1/100) (1/2) 5 =
     Inr ([[(''iter'', IntV 1), (''a'', FloatV 0), (''b'', FloatV 2), (''x_val'', FloatV 1),
            (''f_x'', FloatV (- 1)), (''error'', FloatV 2)],
           [(''iter'', IntV 2), (''a'', FloatV 1), (''b'', FloatV 2), (''x_val'', FloatV (3 / 2)),
            (''f_x'', FloatV (1 / 4)), (''error'', FloatV 1)]],
          Some (3 / 2), True, None)"
    by (simp add: web_eval)
  from trace_length [OF h]
  have "case snd (run_loop ''bisection'' [1, 0, -2] 0 2 (1/100) (1/2) 5) of
          None \<Rightarrow> False | Some i \<Rightarrow> i = 2"
    by (auto split: option.splits)
  then have "snd (run_loop ''bisection'' [1, 0, -2] 0 2 (1/100) (1/2) 5) = Some 2"
    by (simp split: option.splits)
  with h show ?thesis by simp
qed

text \<open>
  Claim C2 as stated fails when the loop stops on a fatal condition: bisection on
  \<open>x\<^sup>2 + 2\<close> over \<open>[1, 2]\<close> breaks at index 1 and the trace is empty, so its length is
  not the index at which the loop stopped.
\<close>

theorem fatal_error_trace_length_counterexample:
  "solve_method ''bisection'' [1, 0, 2] 1 2 (1/100) (1/10000) 5 =
     Inr ([], None, False,
          Some ''Root not bracketed. f(a) and f(b) must have opposite signs.'') \<and>
   snd (run_loop ''bisection'' [1, 0, 2] 1 2 (1/100) (1/10000) 5) = Some 1 \<and>
   int (length ([] :: row list)) \<noteq> 1"
  by (simp add: web_eval)

section \<open>Running out of iterations\<close>

lemma web_exhausted:
  assumes "supported method" and "1 \<le> max_iter"
      and "run_loop method coeffs a b delta tol max_iter = (s, None)"
  shows "\<exists>r. solve_method method coeffs a b delta tol max_iter =
               Inr (iterations s, Some r, False, Some ''Max iterations reached.'') \<and>
             map_of (last (iterations s)) ''x_val'' = Some (FloatV r) \<and>
             int (length (iterations s)) = max_iter"
proof -
  let ?d = "if method = ''newton'' then get_poly_derivative coeffs else []"
  have fl: "for_loop (iteration method coeffs ?d delta tol) [1..max_iter] (init_vars a b)
              = (s, None)"
    using assms(3) by (simp add: run_loop_def)
  note L = for_loop_lengths [OF fl, simplified init_vars_simps, simplified]
  then have l: "length (iterations s) = nat max_iter" "\<not> converged s" "error_msg s = None"
    by simp_all
  have ne: "[1..max_iter] \<noteq> []" using assms(2) by simp
  from for_loop_exhausted_last [OF fl assms(1)] ne
  obtain r where r: "iterations s \<noteq> []" "map_of (last (iterations s)) ''x_val'' = Some (FloatV r)"
    by (auto simp add: init_vars_simps)
  then obtain rw rws where "iterations s = rw # rws" by (cases "iterations s") auto
  with r l have "finish s = Inr (iterations s, Some r, False, Some ''Max iterations reached.'')"
    by (simp add: finish_def val_float_def)
  with assms(2,3) l(1) r(2) show ?thesis by (auto simp add: solve_method_def)
qed

lemma cli_last_pass:
  assumes "step_func st = Some (ns, rw, err, r)"
      and "\<not> (err < tol \<or> f_val_below cs r tol)"
  shows "cli_for step_func tol cs [i] st lr = Inr [RowLine i rw, MaxIterLine r]"
  using assms by simp

text \<open>
  Claim C7, as the code has it. In the web engine, for one of the six methods and
  \<open>max_iter \<ge> 1\<close>, when the loop runs out (no pass converged and none hit a fatal
  condition), \<^verbatim>\<open>solve_method\<close> returns \<open>converged = False\<close>, the root taken from \<^verbatim>\<open>x_val\<close>
  of the last row, a trace of \<open>max_iter\<close> rows, and the message
  \<^verbatim>\<open>Max iterations reached.\<close> In the terminal engine, a last pass that neither fails nor
  converges is followed by the max-iterations line with that pass's estimate.
\<close>

theorem max_iterations_result:
  "(supported m \<and> 1 \<le> max_iter \<and> run_loop m coeffs a b delta tol max_iter = (s, None) \<longrightarrow>
      (\<exists>r. solve_method m coeffs a b delta tol max_iter =
               Inr (iterations s, Some r, False, Some ''Max iterations reached.'') \<and>
            map_of (last (iterations s)) ''x_val'' = Some (FloatV r) \<and>
            int (length (iterations s)) = max_iter)) \<and>
   (step_func st = Some (ns, rw, err, r) \<and> \<not> (err < tol \<or> f_val_below cs r tol) \<longrightarrow>
      cli_for step_func tol cs [i] st lr = Inr [RowLine i rw, MaxIterLine r])"
  apply (intro conjI impI)
  subgoal by (elim conjE) (rule web_exhausted)
  subgoal by (elim conjE) (rule cli_last_pass)
  done

text \<open>
  The theorem of C7 at two Newton passes on \<open>x\<^sup>2 - 2\<close> from \<open>1\<close>, and at a single Newton
  pass of the terminal engine on the same input.
\<close>

theorem max_iterations_result_witness:
  "solve_method ''newton'' [1, 0, -2] 1 0 (1/100) (1/10000) 2 =
     Inr ([[(''iter'', IntV 1), (''x_curr'', FloatV 1), (''f_x'', FloatV (- 1)),
            (''df_x'', FloatV 2), (''x_val'', FloatV (3 / 2)), (''error'', FloatV (1 / 2))],
           [(''iter'', IntV 2), (''x_curr'', FloatV (3 / 2)), (''f_x'', FloatV (1 / 4)),
            (''df_x'', FloatV 3), (''x_val'', FloatV (17 / 12)), (''error'', FloatV (1 / 12))]],
          Some (17 / 12), False, Some ''Max iterations reached.'') \<and>
   cli_for (open_step newton_logic [1, 0, -2] [2, 0]) (1/10000) (Some [1, 0, -2]) [1] 1 None =
     Inr [RowLine 1 [1, 3 / 2, 1 / 2], MaxIterLine (3 / 2)]"
proof -
  have sup: "supported ''newton''" by (simp add: supported_def)
  have run: "run_loop ''newton'' [1, 0, -2] 1 0 (1/100) (1/10000) 2 =
     (\<lparr>x0 = 1, x1 = 0, curr_x = 17 / 12, prev_x = 1,
       iterations =
         [[(''iter'', IntV 1), (''x_curr'', FloatV 1), (''f_x'', FloatV (- 1)),
           (''df_x'', FloatV 2), (''x_val'', FloatV (3 / 2)), (''error'', FloatV (1 / 2))],
          [(''iter'', IntV 2), (''x_curr'', FloatV (3 / 2)), (''f_x'', FloatV (1 / 4)),
           (''df_x'', FloatV 3), (''x_val'', FloatV (17 / 12)), (''error'', FloatV (1 / 12))]],
       root_v = None, converged = False, error_msg = None\<rparr>, None)"
    by (simp add: web_eval derivative_example)
  have w1: "solve_method ''newton'' [1, 0, -2] 1 0 (1/100) (1/10000) 2 =
     Inr ([[(''iter'', IntV 1), (''x_curr'', FloatV 1), (''f_x'', FloatV (- 1)),
            (''df_x'', FloatV 2), (''x_val'', FloatV (3 / 2)), (''error'', FloatV (1 / 2))],
           [(''iter'', IntV 2), (''x_curr'', FloatV (3 / 2)), (''f_x'', FloatV (1 / 4)),
            (''df_x'', FloatV 3), (''x_val'', FloatV (17 / 12)), (''error'', FloatV (1 / 12))]],
          Some (17 / 12), False, Some ''Max iterations reached.'')"
    using max_iterations_result [where m = "''newton''" and max_iter = 2
        and coeffs = "[1, 0, -2]" and a = 1 and b = 0 and delta = "1/100" and tol = "1/10000"
        and s = "fst (run_loop ''newton'' [1, 0, -2] 1 0 (1/100) (1/10000) 2)",
        THEN conjunct1] sup run
    by auto
  have st: "open_step newton_logic [1, 0, -2] [2, 0] 1 = Some (3 / 2, [1, 3 / 2, 1 / 2], 1 / 2, 3 / 2)"
    by (simp add: open_step_def newton_logic_def eval_poly_def Let_def)
  have nc: "\<not> (1 / 2 < (1 / 10000 :: real) \<or> f_val_below (Some [1, 0, -2]) (3 / 2) (1 / 10000))"
    by (simp add: f_val_below_def eval_poly_def)
  have w2: "cli_for (open_step newton_logic [1, 0, -2] [2, 0]) (1/10000) (Some [1, 0, -2]) [1] 1
      None = Inr [RowLine 1 [1, 3 / 2, 1 / 2], MaxIterLine (3 / 2)]"
    using max_iterations_result [where step_func = "open_step newton_logic [1, 0, -2] [2, 0]"
        and st = 1 and ns = "3 / 2" and rw = "[1, 3 / 2, 1 / 2]" and err = "1 / 2"
        and r = "3 / 2" and tol = "1 / 10000" and cs = "Some [1, 0, -2]" and i = 1
        and lr = None, THEN conjunct2] st nc
    by blast
  from w1 w2 show ?thesis by (intro conjI)
qed

text \<open>
  Claim C7 as stated names the message \<^verbatim>\<open>max iterations reached\<close>; the message the code
  stores is \<^verbatim>\<open>Max iterations reached.\<close>, with a capital and a full stop.
\<close>

theorem max_iterations_message_counterexample:
  "solve_method ''newton'' [1, 0, -2] 1 0 (1/100) (1/10000) 1 =
     Inr ([[(''iter'', IntV 1), (''x_curr'', FloatV 1), (''f_x'', FloatV (- 1)),
            (''df_x'', FloatV 2), (''x_val'', FloatV (3 / 2)), (''error'', FloatV (1 / 2))]],
          Some (3 / 2), False, Some ''Max iterations reached.'') \<and>
   ''Max iterations reached.'' \<noteq> ''max iterations reached''"
  by (simp add: web_eval derivative_example)

section \<open>Convergence tests\<close>

lemma cli_for_converged:
  assumes "step_func st = Some (ns, rw, err, r)"
      and "err < tol \<or> f_val_below coeffs r tol"
  shows "cli_for step_func tol coeffs (i # rest) st lr = Inr [RowLine i rw, ConvergedLine r i]"
  using assms by simp

lemma f_val_below_Some:
  "c \<noteq> [] \<Longrightarrow> f_val_below (Some c) r tol \<longleftrightarrow> \<bar>eval_poly c r\<bar> < tol"
  by (simp add: f_val_below_def)

lemma dispatch_simps:
  "dispatch ''bisection'' c d delta tol i rw s = bisection_branch c tol rw s"
  "dispatch ''regula_falsi'' c d delta tol i rw s = regula_falsi_branch c tol i rw s"
  "dispatch ''secant'' c d delta tol i rw s = secant_branch c tol rw s"
  "dispatch ''newton'' c d delta tol i rw s = newton_branch c d tol rw s"
  "dispatch ''fixed_point'' c d delta tol i rw s = fixed_point_branch c tol rw s"
  "dispatch ''modified_secant'' c d delta tol i rw s = modified_secant_branch c delta tol rw s"
  by (simp_all add: dispatch_def)

lemma pass_stop_converged:
  assumes "dispatch method c d delta tol i [(''iter'', IntV i)] s = stop_converged x rw s"
  shows "stops_converged (iteration method c d delta tol) i rest s x"
proof -
  have "for_loop (iteration method c d delta tol) (i # rest) s =
      (s\<lparr>iterations := iterations s @ [rw], root_v := Some x, converged := True\<rparr>, Some i)"
    using assms by (simp add: iteration_def stop_converged_def)
  then show ?thesis ..
qed

lemma bisection_pass_converged:
  assumes "eval_poly c (x0 s) * eval_poly c (x1 s) < 0"
      and "\<bar>eval_poly c ((x0 s + x1 s) / 2)\<bar> < tol \<or> \<bar>x1 s - x0 s\<bar> < tol"
  shows "stops_converged (iteration ''bisection'' c d delta tol) i rest s ((x0 s + x1 s) / 2)"
proof -
  have h1: "(eval_poly c (x0 s) * eval_poly c (x1 s) \<ge> 0) = False"
    using assms(1) by simp
  have h2: "(\<bar>eval_poly c ((x0 s + x1 s) / 2)\<bar> < tol \<or> \<bar>x1 s - x0 s\<bar> < tol) = True"
    using assms(2) by (rule eqTrueI)
  show ?thesis
    by (rule pass_stop_converged)
       (simp only: dispatch_simps bisection_branch_def Let_def h1 h2 if_False if_True)
qed

lemma regula_falsi_pass_converged:
  assumes "eval_poly c (x0 s) * eval_poly c (x1 s) < 0"
      and "\<bar>eval_poly c ((x0 s * eval_poly c (x1 s) - x1 s * eval_poly c (x0 s)) /
              (eval_poly c (x1 s) - eval_poly c (x0 s)))\<bar> < tol"
  shows "stops_converged (iteration ''regula_falsi'' c d delta tol) i rest s
           ((x0 s * eval_poly c (x1 s) - x1 s * eval_poly c (x0 s)) /
              (eval_poly c (x1 s) - eval_poly c (x0 s)))"
proof -
  have h1: "(eval_poly c (x0 s) * eval_poly c (x1 s) \<ge> 0) = False"
    using assms(1) by simp
  have h2: "(eval_poly c (x1 s) - eval_poly c (x0 s) = 0) = False"
  proof -
    have "eval_poly c (x1 s) \<noteq> eval_poly c (x0 s)"
    proof
      assume "eval_poly c (x1 s) = eval_poly c (x0 s)"
      with assms(1) have "eval_poly c (x0 s) * eval_poly c (x0 s) < 0" by simp
      then show False by (simp add: not_less [symmetric])
    qed
    then show ?thesis by simp
  qed
  have h3: "(\<bar>eval_poly c ((x0 s * eval_poly c (x1 s) - x1 s * eval_poly c (x0 s)) /
              (eval_poly c (x1 s) - eval_poly c (x0 s)))\<bar> < tol) = True"
    using assms(2) by (rule eqTrueI)
  show ?thesis
    by (rule pass_stop_converged)
       (simp only: dispatch_simps regula_falsi_branch_def Let_def h1 h2 h3 if_False if_True)
qed

lemma secant_pass_converged:
  assumes "eval_poly c (x1 s) - eval_poly c (x0 s) \<noteq> 0"
      and "\<bar>x1 s - eval_poly c (x1 s) * (x1 s - x0 s) /
               (eval_poly c (x1 s) - eval_poly c (x0 s)) - x1 s\<bar> < tol"
  shows "stops_converged (iteration ''secant'' c d delta tol) i rest s
           (x1 s - eval_poly c (x1 s) * (x1 s - x0 s) /
               (eval_poly c (x1 s) - eval_poly c (x0 s)))"
proof -
  have h1: "(eval_poly c (x1 s) - eval_poly c (x0 s) = 0) = False"
    using assms(1) by simp
  have h2: "(\<bar>x1 s - eval_poly c (x1 s) * (x1 s - x0 s) /
               (eval_poly c (x1 s) - eval_poly c (x0 s)) - x1 s\<bar> < tol) = True"
    using assms(2) by (rule eqTrueI)
  show ?thesis
    by (rule pass_stop_converged)
       (simp only: dispatch_simps secant_branch_def Let_def h1 h2 if_False if_True)
qed

lemma newton_pass_converged:
  assumes "eval_poly d (curr_x s) \<noteq> 0"
      and "\<bar>curr_x s - eval_poly c (curr_x s) / eval_poly d (curr_x s) - curr_x s\<bar> < tol"
  shows "stops_converged (iteration ''newton'' c d delta tol) i rest s
           (curr_x s - eval_poly c (curr_x s) / eval_poly d (curr_x s))"
proof -
  have h1: "(eval_poly d (curr_x s) = 0) = False"
    using assms(1) by simp
  have h2: "(\<bar>curr_x s - eval_poly c (curr_x s) / eval_poly d (curr_x s) - curr_x s\<bar> < tol)
              = True"
    using assms(2) by (rule eqTrueI)
  show ?thesis
    by (rule pass_stop_converged)
       (simp only: dispatch_simps newton_branch_def Let_def h1 h2 if_False if_True)
qed

lemma fixed_point_pass_converged:
  assumes "\<bar>eval_poly c (curr_x s) - curr_x s\<bar> < tol"
  shows "stops_converged (iteration ''fixed_point'' c d delta tol) i rest s
           (eval_poly c (curr_x s))"
proof -
  have h1: "(\<bar>eval_poly c (curr_x s) - curr_x s\<bar> < tol) = True"
    using assms(1) by (rule eqTrueI)
  show ?thesis
    by (rule pass_stop_converged)
       (simp only: dispatch_simps fixed_point_branch_def Let_def h1 if_False if_True)
qed

lemma modified_secant_pass_converged:
  assumes "eval_poly c (curr_x s + delta * curr_x s) - eval_poly c (curr_x s) \<noteq> 0"
      and "\<bar>curr_x s - delta * curr_x s * eval_poly c (curr_x s) /
               (eval_poly c (curr_x s + delta * curr_x s) - eval_poly c (curr_x s))
             - curr_x s\<bar> < tol"
  shows "stops_converged (iteration ''modified_secant'' c d delta tol) i rest s
           (curr_x s - delta * curr_x s * eval_poly c (curr_x s) /
               (eval_poly c (curr_x s + delta * curr_x s) - eval_poly c (curr_x s)))"
proof -
  have h1: "(eval_poly c (curr_x s + delta * curr_x s) - eval_poly c (curr_x s) = 0) = False"
    using assms(1) by simp
  have h2: "(\<bar>curr_x s - delta * curr_x s * eval_poly c (curr_x s) /
               (eval_poly c (curr_x s + delta * curr_x s) - eval_poly c (curr_x s))
             - curr_x s\<bar> < tol) = True"
    using assms(2) by (rule eqTrueI)
  show ?thesis
    by (rule pass_stop_converged)
       (simp only: dispatch_simps modified_secant_branch_def Let_def h1 h2 if_False if_True)
qed

text \<open>
  Claim C1, as the code has it. In the web engine a pass that meets no fatal condition
  stops the loop with \<open>converged = True\<close> and the current estimate as root
  \<^item> for Bisection, when the bracket width or \<open>|f(x_mid)|\<close> is below the tolerance;
  \<^item> for Regula Falsi, when \<open>|f(x_new)|\<close> is below the tolerance;
  \<^item> for Secant, Newton-Raphson, Fixed Point and Modified Secant, when the step error
    \<open>|x_next - x_curr|\<close> is below the tolerance.
  In the terminal engine every method goes through the same loop, which stops with the
  convergence line when the step's error is below the tolerance or, the coefficient list
  being non-empty, when the polynomial's absolute value at the estimate is below it.
\<close>

theorem convergence_policy:
  "(eval_poly c (x0 s) * eval_poly c (x1 s) < 0 \<and>
      (\<bar>eval_poly c ((x0 s + x1 s) / 2)\<bar> < tol \<or> \<bar>x1 s - x0 s\<bar> < tol) \<longrightarrow>
    stops_converged (iteration ''bisection'' c d delta tol) i rest s ((x0 s + x1 s) / 2)) \<and>
   (eval_poly c (x0 s) * eval_poly c (x1 s) < 0 \<and>
      \<bar>eval_poly c ((x0 s * eval_poly c (x1 s) - x1 s * eval_poly c (x0 s)) /
              (eval_poly c (x1 s) - eval_poly c (x0 s)))\<bar> < tol \<longrightarrow>
    stops_converged (iteration ''regula_falsi'' c d delta tol) i rest s
      ((x0 s * eval_poly c (x1 s) - x1 s * eval_poly c (x0 s)) /
         (eval_poly c (x1 s) - eval_poly c (x0 s)))) \<and>
   (eval_poly c (x1 s) - eval_poly c (x0 s) \<noteq> 0 \<and>
      \<bar>x1 s - eval_poly c (x1 s) * (x1 s - x0 s) /
         (eval_poly c (x1 s) - eval_poly c (x0 s)) - x1 s\<bar> < tol \<longrightarrow>
    stops_converged (iteration ''secant'' c d delta tol) i rest s
      (x1 s - eval_poly c (x1 s) * (x1 s - x0 s) /
         (eval_poly c (x1 s) - eval_poly c (x0 s)))) \<and>
   (eval_poly d (curr_x s) \<noteq> 0 \<and>
      \<bar>curr_x s - eval_poly c (curr_x s) / eval_poly d (curr_x s) - curr_x s\<bar> < tol \<longrightarrow>
    stops_converged (iteration ''newton'' c d delta tol) i rest s
      (curr_x s - eval_poly c (curr_x s) / eval_poly d (curr_x s))) \<and>
   (\<bar>eval_poly c (curr_x s) - curr_x s\<bar> < tol \<longrightarrow>
    stops_converged (iteration ''fixed_point'' c d delta tol) i rest s
      (eval_poly c (curr_x s))) \<and>
   (eval_poly c (curr_x s + delta * curr_x s) - eval_poly c (curr_x s) \<noteq> 0 \<and>
      \<bar>curr_x s - delta * curr_x s * eval_poly c (curr_x s) /
         (eval_poly c (curr_x s + delta * curr_x s) - eval_poly c (curr_x s)) - curr_x s\<bar>
        < tol \<longrightarrow>
    stops_converged (iteration ''modified_secant'' c d delta tol) i rest s
      (curr_x s - delta * curr_x s * eval_poly c (curr_x s) /
         (eval_poly c (curr_x s + delta * curr_x s) - eval_poly c (curr_x s)))) \<and>
   (step_func st = Some (ns, rw, err, r) \<and>
      (err < tol \<or> (p \<noteq> [] \<and> \<bar>eval_poly p r\<bar> < tol)) \<longrightarrow>
    cli_for step_func tol (Some p) (i # rest) st lr = Inr [RowLine i rw, ConvergedLine r i])"
  apply (intro conjI impI)
  subgoal by (elim conjE) (rule bisection_pass_converged)
  subgoal by (elim conjE) (rule regula_falsi_pass_converged)
  subgoal by (elim conjE) (rule secant_pass_converged)
  subgoal by (elim conjE) (rule newton_pass_converged)
  subgoal by (rule fixed_point_pass_converged)
  subgoal by (elim conjE) (rule modified_secant_pass_converged)
  subgoal by (elim conjE, rule cli_for_converged, assumption) (auto simp add: f_val_below_Some)
  done

text \<open>The theorem of C1 at one converging first pass per method.\<close>

theorem convergence_policy_witness:
  "stops_converged (iteration ''bisection'' [1, 0, -2] [] (1/100) 3) 1 [] (init_vars 0 2) 1 \<and>
   stops_converged (iteration ''regula_falsi'' [1, 0, -2] [] (1/100) (1/2)) 1 []
     (init_vars 1 2) (4 / 3) \<and>
   stops_converged (iteration ''secant'' [1, 0, -2] [] (1/100) 1) 1 [] (init_vars 1 2) (4 / 3) \<and>
   stops_converged (iteration ''newton'' [1, 0, -2] [2, 0] (1/100) 1) 1 [] (init_vars 1 0)
     (3 / 2) \<and>
   stops_converged (iteration ''fixed_point'' [1/2, 1] [] (1/100) (1/10)) 1 [] (init_vars 2 0) 2 \<and>
   stops_converged (iteration ''modified_secant'' [1, 0, -2] [] (1/100) 1) 1 [] (init_vars 1 0)
     (301 / 201) \<and>
   cli_for (bracket_step bisection_calc [1, 0, -2]) 3 (Some [1, 0, -2]) [1] (0, 2) None =
     Inr [RowLine 1 [0, 2, 1, - 1, 2], ConvergedLine 1 1]"
proof -
  have w1: "stops_converged (iteration ''bisection'' [1, 0, -2] [] (1/100) 3) 1 []
              (init_vars 0 2) 1"
    using convergence_policy [where c = "[1, 0, -2]" and s = "init_vars 0 2" and tol = 3
        and d = "[]" and delta = "1/100" and i = 1 and rest = "[]", THEN conjunct1]
    by (simp add: init_vars_simps eval_poly_def)
  have w2: "stops_converged (iteration ''regula_falsi'' [1, 0, -2] [] (1/100) (1/2)) 1 []
              (init_vars 1 2) (4 / 3)"
    using convergence_policy [where c = "[1, 0, -2]" and s = "init_vars 1 2" and tol = "1/2"
        and d = "[]" and delta = "1/100" and i = 1 and rest = "[]",
        THEN conjunct2, THEN conjunct1]
    by (simp add: init_vars_simps eval_poly_def)
  have w3: "stops_converged (iteration ''secant'' [1, 0, -2] [] (1/100) 1) 1 []
              (init_vars 1 2) (4 / 3)"
    using convergence_policy [where c = "[1, 0, -2]" and s = "init_vars 1 2" and tol = 1
        and d = "[]" and delta = "1/100" and i = 1 and rest = "[]",
        THEN conjunct2, THEN conjunct2, THEN conjunct1]
    by (simp add: init_vars_simps eval_poly_def)
  have w4: "stops_converged (iteration ''newton'' [1, 0, -2] [2, 0] (1/100) 1) 1 []
              (init_vars 1 0) (3 / 2)"
    using convergence_policy [where c = "[1, 0, -2]" and s = "init_vars 1 0" and tol = 1
        and d = "[2, 0]" and delta = "1/100" and i = 1 and rest = "[]",
        THEN conjunct2, THEN conjunct2, THEN conjunct2, THEN conjunct1]
    by (simp add: init_vars_simps eval_poly_def)
  have w5: "stops_converged (iteration ''fixed_point'' [1/2, 1] [] (1/100) (1/10)) 1 []
              (init_vars 2 0) 2"
    using convergence_policy [where c = "[1/2, 1]" and s = "init_vars 2 0" and tol = "1/10"
        and d = "[]" and delta = "1/100" and i = 1 and rest = "[]",
        THEN conjunct2, THEN conjunct2, THEN conjunct2, THEN conjunct2, THEN conjunct1]
    by (simp add: init_vars_simps eval_poly_def)
  have w6: "stops_converged (iteration ''modified_secant'' [1, 0, -2] [] (1/100) 1) 1 []
              (init_vars 1 0) (301 / 201)"
    using convergence_policy [where c = "[1, 0, -2]" and s = "init_vars 1 0" and tol = 1
        and d = "[]" and delta = "1/100" and i = 1 and rest = "[]",
        THEN conjunct2, THEN conjunct2, THEN conjunct2, THEN conjunct2, THEN conjunct2,
        THEN conjunct1]
    by (simp add: init_vars_simps eval_poly_def)
  have st: "bracket_step bisection_calc [1, 0, -2] (0, 2) =
              Some ((1, 2), [0, 2, 1, - 1, 2], 2, 1)"
    by (simp add: bracket_step_def bisection_calc_def eval_poly_def Let_def)
  have w7: "cli_for (bracket_step bisection_calc [1, 0, -2]) 3 (Some [1, 0, -2]) [1] (0, 2) None =
     Inr [RowLine 1 [0, 2, 1, - 1, 2], ConvergedLine 1 1]"
    using convergence_policy [where step_func = "bracket_step bisection_calc [1, 0, -2]"
        and st = "(0, 2)" and ns = "(1, 2)" and rw = "[0, 2, 1, - 1, 2]" and err = 2 and r = 1
        and tol = 3 and p = "[1, 0, -2]" and i = 1 and rest = "[]" and lr = None,
        THEN conjunct2, THEN conjunct2, THEN conjunct2, THEN conjunct2, THEN conjunct2,
        THEN conjunct2] st
    by simp
  from w1 w2 w3 w4 w5 w6 w7 show ?thesis by (intro conjI)
qed

text \<open>
  Claim C1 as stated fails in the web engine. Newton-Raphson on \<open>x\<^sup>2\<close> from \<open>1\<close> with
  tolerance \<open>0.3\<close>: after the first pass \<open>|f(1/2)| = 1/4\<close> is below the tolerance, yet the
  loop goes on to a second pass. Regula Falsi on \<open>100x\<^sup>2 - 200\<close> over \<open>[1, 2]\<close> with
  tolerance \<open>1.5\<close>: both passes report an error below the tolerance (\<open>1\<close> and \<open>1/15\<close>),
  yet the solve ends unconverged.
\<close>

theorem convergence_policy_counterexample:
  "solve_method ''newton'' [1, 0, 0] 1 0 (1/100) (3/10) 5 =
     Inr ([[(''iter'', IntV 1), (''x_curr'', FloatV 1), (''f_x'', FloatV 1),
            (''df_x'', FloatV 2), (''x_val'', FloatV (1 / 2)), (''error'', FloatV (1 / 2))],
           [(''iter'', IntV 2), (''x_curr'', FloatV (1 / 2)), (''f_x'', FloatV (1 / 4)),
            (''df_x'', FloatV 1), (''x_val'', FloatV (1 / 4)), (''error'', FloatV (1 / 4))]],
          Some (1 / 4), True, None) \<and>
   \<bar>eval_poly [1, 0, 0] (1 / 2)\<bar> < 3 / 10 \<and>
   solve_method ''regula_falsi'' [100, 0, -200] 1 2 (1/100) (3/2) 2 =
     Inr ([[(''iter'', IntV 1), (''a'', FloatV 1), (''b'', FloatV 2),
            (''x_val'', FloatV (4 / 3)), (''f_x'', FloatV (- (200 / 9))), (''error'', FloatV 1)],
           [(''iter'', IntV 2), (''a'', FloatV (4 / 3)), (''b'', FloatV 2),
            (''x_val'', FloatV (7 / 5)), (''f_x'', FloatV (- 4)), (''error'', FloatV (1 / 15))]],
          Some (7 / 5), False, Some ''Max iterations reached.'') \<and>
   (1::real) < 3 / 2"
proof -
  have a: "solve_method ''newton'' [1, 0, 0] 1 0 (1/100) (3/10) 5 =
     Inr ([[(''iter'', IntV 1), (''x_curr'', FloatV 1), (''f_x'', FloatV 1),
            (''df_x'', FloatV 2), (''x_val'', FloatV (1 / 2)), (''error'', FloatV (1 / 2))],
           [(''iter'', IntV 2), (''x_curr'', FloatV (1 / 2)), (''f_x'', FloatV (1 / 4)),
            (''df_x'', FloatV 1), (''x_val'', FloatV (1 / 4)), (''error'', FloatV (1 / 4))]],
          Some (1 / 4), True, None)"
    by (simp add: web_eval derivative_square)
  have b: "\<bar>eval_poly [1, 0, 0] (1 / 2)\<bar> < 3 / 10"
    by (simp add: eval_poly_def)
  have c: "solve_method ''regula_falsi'' [100, 0, -200] 1 2 (1/100) (3/2) 2 =
     Inr ([[(''iter'', IntV 1), (''a'', FloatV 1), (''b'', FloatV 2),
            (''x_val'', FloatV (4 / 3)), (''f_x'', FloatV (- (200 / 9))), (''error'', FloatV 1)],
           [(''iter'', IntV 2), (''a'', FloatV (4 / 3)), (''b'', FloatV 2),
            (''x_val'', FloatV (7 / 5)), (''f_x'', FloatV (- 4)), (''error'', FloatV (1 / 15))]],
          Some (7 / 5), False, Some ''Max iterations reached.'')"
    by (simp add: web_eval)
  from a b c show ?thesis by simp
qed

section \<open>The secondary test in the terminal engine\<close>

text \<open>
  Claim C10. The loop of the terminal engine applies the test on the polynomial's value
  to whatever step function it is given: a step whose estimate \<open>r\<close> has
  \<open>|eval_poly c r| < tol\<close> ends the run with the convergence line, whatever the step's
  error. Fixed Point passes its iteration function \<open>g\<close> as these coefficients, so it
  reports convergence as soon as \<open>|g(x_next)| < tol\<close>, at any pass and in particular at
  the first.
\<close>

theorem cli_secondary_test:
  "(step_func st = Some (ns, rw, err, r) \<and> c \<noteq> [] \<and> \<bar>eval_poly c r\<bar> < tol \<longrightarrow>
      cli_for step_func tol (Some c) (i # rest) st lr = Inr [RowLine i rw, ConvergedLine r i]) \<and>
   (c \<noteq> [] \<and> \<bar>eval_poly c (eval_poly c p)\<bar> < tol \<longrightarrow>
      cli_for (open_step fixed_point_logic c ()) tol (Some c) (i # rest) p lr =
        Inr [RowLine i [p, eval_poly c p, \<bar>eval_poly c p - p\<bar>], ConvergedLine (eval_poly c p) i]) \<and>
   (c \<noteq> [] \<and> \<bar>eval_poly c (eval_poly c p)\<bar> < tol \<and> 1 \<le> max_iter \<longrightarrow>
      cli_fixed_point c p tol max_iter =
        Inr [RowLine 1 [p, eval_poly c p, \<bar>eval_poly c p - p\<bar>], ConvergedLine (eval_poly c p) 1])"
proof (intro conjI impI)
  assume "step_func st = Some (ns, rw, err, r) \<and> c \<noteq> [] \<and> \<bar>eval_poly c r\<bar> < tol"
  then show "cli_for step_func tol (Some c) (i # rest) st lr =
      Inr [RowLine i rw, ConvergedLine r i]"
    by (simp add: f_val_below_Some)
next
  have st: "open_step fixed_point_logic c () p =
      Some (eval_poly c p, [p, eval_poly c p, \<bar>eval_poly c p - p\<bar>], \<bar>eval_poly c p - p\<bar>,
            eval_poly c p)"
    by (simp add: open_step_def fixed_point_logic_def Let_def)
  {
    fix j js l
    assume "c \<noteq> [] \<and> \<bar>eval_poly c (eval_poly c p)\<bar> < tol"
    then have "f_val_below (Some c) (eval_poly c p) tol" by (simp add: f_val_below_Some)
    then have "cli_for (open_step fixed_point_logic c ()) tol (Some c) (j # js) p l =
        Inr [RowLine j [p, eval_poly c p, \<bar>eval_poly c p - p\<bar>], ConvergedLine (eval_poly c p) j]"
      using st by simp
  }
  note any = this
  {
    assume "c \<noteq> [] \<and> \<bar>eval_poly c (eval_poly c p)\<bar> < tol"
    then show "cli_for (open_step fixed_point_logic c ()) tol (Some c) (i # rest) p lr =
        Inr [RowLine i [p, eval_poly c p, \<bar>eval_poly c p - p\<bar>], ConvergedLine (eval_poly c p) i]"
      by (rule any)
  next
    assume a: "c \<noteq> [] \<and> \<bar>eval_poly c (eval_poly c p)\<bar> < tol \<and> 1 \<le> max_iter"
    then have "c \<noteq> [] \<and> \<bar>eval_poly c (eval_poly c p)\<bar> < tol" by simp
    from any [OF this, of 1 "[2..max_iter]" None] a
    show "cli_fixed_point c p tol max_iter =
        Inr [RowLine 1 [p, eval_poly c p, \<bar>eval_poly c p - p\<bar>], ConvergedLine (eval_poly c p) 1]"
      by (simp add: cli_fixed_point_def open_method_def solve_loop_def upto_first)
  }
qed

text \<open>
  The theorem of C10 at \<open>g(x) = x - 2\<close> from \<open>4\<close> with tolerance \<open>0.1\<close>: the step error is
  \<open>2\<close>, and the run reports convergence to \<open>2\<close>, which is no fixed point of \<open>g\<close>; the same
  at a later pass; and at a Secant step on \<open>x\<^sup>2 - 2\<close> whose error \<open>2/3\<close> is above the
  tolerance \<open>1/4\<close> while \<open>|f(4/3)| = 2/9\<close> is below it.
\<close>

theorem cli_secondary_test_witness:
  "\<not> \<bar>eval_poly [1, -2] 4 - 4\<bar> < 1 / 10 \<and>
   cli_fixed_point [1, -2] 4 (1/10) 5 = Inr [RowLine 1 [4, 2, 2], ConvergedLine 2 1] \<and>
   cli_for (open_step fixed_point_logic [1, -2] ()) (1/10) (Some [1, -2]) [3, 4] 4 (Some 7) =
     Inr [RowLine 3 [4, 2, 2], ConvergedLine 2 3] \<and>
   cli_for (secant_step [1, 0, -2]) (1/4) (Some [1, 0, -2]) [1] (1, 2) None =
     Inr [RowLine 1 [1, 2, 4 / 3, 2 / 3], ConvergedLine (4 / 3) 1]"
proof -
  have h: "[1, -2] \<noteq> ([]::real list) \<and> \<bar>eval_poly [1, -2] (eval_poly [1, -2] 4)\<bar> < 1 / 10
            \<and> (1::int) \<le> 5"
    by (simp add: eval_poly_def)
  from cli_secondary_test [where c = "[1, -2]" and p = 4 and tol = "1/10" and max_iter = 5,
      THEN conjunct2, THEN conjunct2, THEN mp, OF h]
  have w1: "\<not> \<bar>eval_poly [1, -2] 4 - 4\<bar> < 1 / 10 \<and>
      cli_fixed_point [1, -2] 4 (1/10) 5 = Inr [RowLine 1 [4, 2, 2], ConvergedLine 2 1]"
    by (simp add: eval_poly_def)
  have h2: "[1, -2] \<noteq> ([]::real list) \<and> \<bar>eval_poly [1, -2] (eval_poly [1, -2] 4)\<bar> < 1 / 10"
    by (simp add: eval_poly_def)
  from cli_secondary_test [where c = "[1, -2]" and p = 4 and tol = "1/10" and i = 3
      and rest = "[4]" and lr = "Some 7", THEN conjunct2, THEN conjunct1, THEN mp, OF h2]
  have w2: "cli_for (open_step fixed_point_logic [1, -2] ()) (1/10) (Some [1, -2]) [3, 4] 4
      (Some 7) = Inr [RowLine 3 [4, 2, 2], ConvergedLine 2 3]"
    by (simp add: eval_poly_def)
  have h3: "secant_step [1, 0, -2] (1, 2) = Some ((2, 4 / 3), [1, 2, 4 / 3, 2 / 3], 2 / 3, 4 / 3)
      \<and> [1, 0, -2] \<noteq> ([]::real list) \<and> \<bar>eval_poly [1, 0, -2] (4 / 3)\<bar> < 1 / 4"
    by (simp add: secant_step_def eval_poly_def Let_def)
  from cli_secondary_test [where step_func = "secant_step [1, 0, -2]" and st = "(1, 2)"
      and c = "[1, 0, -2]" and tol = "1/4" and i = 1 and rest = "[]" and lr = None,
      THEN conjunct1, THEN mp, OF h3]
  have w3: "cli_for (secant_step [1, 0, -2]) (1/4) (Some [1, 0, -2]) [1] (1, 2) None =
     Inr [RowLine 1 [1, 2, 4 / 3, 2 / 3], ConvergedLine (4 / 3) 1]" .
  from w1 w2 w3 show ?thesis by (intro conjI) simp_all
qed

section \<open>The sign test of the bracketing methods\<close>

lemma for_loop_not_bracketed:
  assumes "method = ''bisection'' \<or> method = ''regula_falsi''"
      and "eval_poly c (x0 s) * eval_poly c (x1 s) \<ge> 0"
  shows "for_loop (iteration method c d delta tol) (i # rest) s =
           (s\<lparr>error_msg := Some not_bracketed\<rparr>, Some i)"
  using iteration_not_bracketed [OF assms] by simp

lemma finish_not_bracketed:
  "\<not> converged s \<Longrightarrow>
   finish (s\<lparr>error_msg := Some not_bracketed\<rparr>) =
     Inr (iterations s, root_v s, False, Some not_bracketed)"
  by (simp add: finish_def not_bracketed_nonempty)

lemma bracket_step_bisection:
  "bracket_step bisection_calc c (a, b) =
     Some (if eval_poly c a * eval_poly c ((a + b) / 2) < 0 then (a, (a + b) / 2)
           else ((a + b) / 2, b),
           [a, b, (a + b) / 2, eval_poly c ((a + b) / 2), \<bar>b - a\<bar>], \<bar>b - a\<bar>, (a + b) / 2)"
  by (simp add: bracket_step_def bisection_calc_def Let_def)

lemma bracket_step_regula_falsi:
  "eval_poly c b \<noteq> eval_poly c a \<Longrightarrow>
   bracket_step regula_falsi_calc c (a, b) =
     Some (if eval_poly c a *
              eval_poly c ((a * eval_poly c b - b * eval_poly c a) /
                           (eval_poly c b - eval_poly c a)) < 0
           then (a, (a * eval_poly c b - b * eval_poly c a) / (eval_poly c b - eval_poly c a))
           else ((a * eval_poly c b - b * eval_poly c a) / (eval_poly c b - eval_poly c a), b),
           [a, b, (a * eval_poly c b - b * eval_poly c a) / (eval_poly c b - eval_poly c a),
            eval_poly c ((a * eval_poly c b - b * eval_poly c a) /
                         (eval_poly c b - eval_poly c a)), \<bar>b - a\<bar>],
           \<bar>b - a\<bar>,
           (a * eval_poly c b - b * eval_poly c a) / (eval_poly c b - eval_poly c a))"
  unfolding bracket_step_def regula_falsi_calc_def Let_def by simp

text \<open>
  Claim C3, as the code has it. In the web engine every pass of Bisection and of Regula
  Falsi starts with the sign test on the current bracket, so before the first step and
  after each bracket update alike: from any state and at any index, a bracket with
  \<open>f(a) * f(b) \<ge> 0\<close> ends the loop in that pass with the not-bracketed message, and the
  solve returns it with the trace and root unchanged. The terminal engine tests the sign
  once, before its loop, and prints the bracket error; its step function has no sign test:
  the Bisection step always yields a next bracket, and the Regula Falsi step does so
  whenever \<open>f(b) \<noteq> f(a)\<close>.
\<close>

theorem bracket_sign_test:
  "((m = ''bisection'' \<or> m = ''regula_falsi'') \<and>
      eval_poly c (x0 s) * eval_poly c (x1 s) \<ge> 0 \<longrightarrow>
      for_loop (iteration m c d delta tol) (i # rest) s =
        (s\<lparr>error_msg := Some not_bracketed\<rparr>, Some i) \<and>
      (\<not> converged s \<longrightarrow>
         finish (s\<lparr>error_msg := Some not_bracketed\<rparr>) =
           Inr (iterations s, root_v s, False, Some not_bracketed))) \<and>
   (eval_poly c a * eval_poly c b \<ge> 0 \<longrightarrow>
      bracketing_method calc_x c a b tol max_iter = Inr [BracketErrorLine]) \<and>
   bracket_step bisection_calc c (a, b) =
     Some (if eval_poly c a * eval_poly c ((a + b) / 2) < 0 then (a, (a + b) / 2)
           else ((a + b) / 2, b),
           [a, b, (a + b) / 2, eval_poly c ((a + b) / 2), \<bar>b - a\<bar>], \<bar>b - a\<bar>, (a + b) / 2) \<and>
   (eval_poly c b \<noteq> eval_poly c a \<longrightarrow> bracket_step regula_falsi_calc c (a, b) \<noteq> None)"
  apply (intro conjI impI)
  subgoal by (elim conjE) (rule for_loop_not_bracketed)
  subgoal by (rule finish_not_bracketed)
  subgoal by (simp add: bracketing_method_def)
  subgoal by (rule bracket_step_bisection)
  subgoal by (simp add: bracket_step_regula_falsi)
  done

text \<open>
  The theorem of C3 in the state that Bisection on \<open>f(x) = x\<close> over \<open>[-1, 1]\<close> reaches after
  its first update (bracket \<open>[0, 1]\<close>), at the terminal engine's first test, and the web
  engine's whole run on that input with tolerance \<open>0\<close>.
\<close>

theorem bracket_sign_test_witness:
  "for_loop (iteration ''bisection'' [1, 0] [] (1/100) 0) [2, 3]
     ((init_vars (- 1) 1)\<lparr>x0 := 0\<rparr>) =
     ((init_vars (- 1) 1)\<lparr>x0 := 0, error_msg := Some not_bracketed\<rparr>, Some 2) \<and>
   finish ((init_vars (- 1) 1)\<lparr>x0 := 0, error_msg := Some not_bracketed\<rparr>) =
     Inr ([], None, False, Some not_bracketed) \<and>
   cli_bisection [1, 0, 2] 1 2 (1/10000) 10 = Inr [BracketErrorLine] \<and>
   bracket_step regula_falsi_calc [1, 0] (0, 1) \<noteq> None \<and>
   solve_method ''bisection'' [1, 0] (- 1) 1 (1/100) 0 3 =
     Inr ([[(''iter'', IntV 1), (''a'', FloatV (- 1)), (''b'', FloatV 1), (''x_val'', FloatV 0),
            (''f_x'', FloatV 0), (''error'', FloatV 2)]],
          None, False, Some ''Root not bracketed. f(a) and f(b) must have opposite signs.'')"
proof -
  have w1: "for_loop (iteration ''bisection'' [1, 0] [] (1/100) 0) [2, 3]
     ((init_vars (- 1) 1)\<lparr>x0 := 0\<rparr>) =
     ((init_vars (- 1) 1)\<lparr>x0 := 0, error_msg := Some not_bracketed\<rparr>, Some 2) \<and>
     finish ((init_vars (- 1) 1)\<lparr>x0 := 0, error_msg := Some not_bracketed\<rparr>) =
     Inr ([], None, False, Some not_bracketed)"
    using bracket_sign_test [where m = "''bisection''" and c = "[1, 0]"
        and s = "(init_vars (- 1) 1)\<lparr>x0 := 0\<rparr>" and d = "[]" and delta = "1/100" and tol = 0
        and i = 2 and rest = "[3]", THEN conjunct1]
    by (simp add: eval_poly_def init_vars_simps)
  have w2: "cli_bisection [1, 0, 2] 1 2 (1/10000) 10 = Inr [BracketErrorLine]"
    using bracket_sign_test [where c = "[1, 0, 2]" and a = 1 and b = 2
        and calc_x = bisection_calc and tol = "1/10000" and max_iter = 10,
        THEN conjunct2, THEN conjunct1]
    by (simp add: eval_poly_def cli_bisection_def)
  have w3: "solve_method ''bisection'' [1, 0] (- 1) 1 (1/100) 0 3 =
     Inr ([[(''iter'', IntV 1), (''a'', FloatV (- 1)), (''b'', FloatV 1), (''x_val'', FloatV 0),
            (''f_x'', FloatV 0), (''error'', FloatV 2)]],
          None, False, Some ''Root not bracketed. f(a) and f(b) must have opposite signs.'')"
    by (simp add: web_eval)
  have w4: "bracket_step regula_falsi_calc [1, 0] (0, 1) \<noteq> None"
    using bracket_sign_test [where c = "[1, 0]" and a = 0 and b = 1,
        THEN conjunct2, THEN conjunct2, THEN conjunct2]
    by (simp add: eval_poly_def)
  from w1 w2 w3 w4 show ?thesis by (intro conjI) simp_all
qed

text \<open>
  Claim C3 as stated fails in the terminal engine. Bisection on \<open>f(x) = x\<close> over \<open>[-1, 1]\<close>
  with tolerance \<open>0\<close>: the second pass runs on the bracket \<open>[0, 1]\<close>, where
  \<open>f(0) * f(1) = 0\<close>, and the run goes on to the third pass and the max-iterations line.
\<close>

theorem cli_no_recheck_counterexample:
  "cli_bisection [1, 0] (- 1) 1 0 3 =
     Inr [RowLine 1 [- 1, 1, 0, 0, 2], RowLine 2 [0, 1, 1 / 2, 1 / 2, 1],
          RowLine 3 [1 / 2, 1, 3 / 4, 3 / 4, 1 / 2], MaxIterLine (3 / 4)] \<and>
   eval_poly [1, 0] 0 * eval_poly [1, 0] 1 \<ge> 0"
  by (simp add: cli_eval)

section \<open>The kept half of a bracket and the reported error\<close>











text \<open>
  In exact arithmetic the midpoint and the false-position point of a bracket with a sign
  change lie strictly between its endpoints. The programs compute in floating point, where
  this can fail: the midpoint of two adjacent doubles rounds to one of them. The theorem
  below therefore takes the position of the estimate as a hypothesis.
\<close>

lemma midpoint_strictly_between:
  fixes a b :: real
  assumes "a \<noteq> b"
  shows "lies_strictly_between a ((a + b) / 2) b"
  using assms by (auto simp add: field_simps)

lemma false_position_strictly_between:
  fixes a b fa fb :: real
  assumes "fa * fb < 0" and "a \<noteq> b"
  shows "lies_strictly_between a ((a * fb - b * fa) / (fb - fa)) b"
proof -
  define t where "t = - fa / (fb - fa)"
  from assms(1) have signs: "(fa < 0 \<and> 0 < fb) \<or> (0 < fa \<and> fb < 0)"
    by (auto simp add: mult_less_0_iff)
  then have ne: "fb - fa \<noteq> 0" by auto
  from signs have t0: "0 < t" unfolding t_def by (auto simp add: field_simps)
  from signs have t1: "t < 1" unfolding t_def by (auto simp add: field_simps)
  have x: "(a * fb - b * fa) / (fb - fa) = a + (b - a) * t"
    unfolding t_def using ne by (simp add: field_simps)
  show ?thesis
  proof (cases "a < b")
    case True
    then have p: "0 < b - a" by simp
    from p t0 have "0 < (b - a) * t" by (rule mult_pos_pos)
    moreover from t1 p have "(b - a) * t < (b - a) * 1" by (rule mult_strict_left_mono)
    ultimately show ?thesis unfolding x by simp
  next
    case False
    with assms(2) have p: "0 < a - b" by simp
    from p t0 have "0 < (a - b) * t" by (rule mult_pos_pos)
    moreover from t1 p have "(a - b) * t < (a - b) * 1" by (rule mult_strict_left_mono)
    moreover have "(b - a) * t = - ((a - b) * t)" by (simp add: algebra_simps)
    ultimately show ?thesis unfolding x by simp
  qed
qed




end
